theory Spec2Isabelle
  imports Main
begin

section \<open>The MI stack commands of gdb/mi/mi-cmd-stack.c\<close>

text \<open>
  The theory embeds the commands \<^verbatim>\<open>-stack-list-frames\<close>, \<^verbatim>\<open>-stack-list-arguments\<close>,
  \<^verbatim>\<open>-stack-list-locals\<close> and \<^verbatim>\<open>-stack-list-variables\<close> together with their helpers
  \<^verbatim>\<open>list_args_or_locals\<close> and \<^verbatim>\<open>list_arg_or_local\<close>.  The debugger state the commands read
  (frame chain, blocks, symbols) is data; the functions of other GDB modules and of libc
  that the commands call are fields of the record \<open>env\<close>.  Integers are \<open>int\<close>: the only
  arithmetic on them is the frame counter \<^verbatim>\<open>i++\<close>, bounded by the length of the frame chain.
  The macro \<^verbatim>\<open>QUIT\<close>, where a user interrupt is taken, is left out: the model is of the
  runs that are not interrupted.
\<close>

subsection \<open>Symbols, types, blocks and frames\<close>

text \<open>
  Modelled from the spec: \<^verbatim>\<open>enum address_class\<close> is declared in symtab.h, a header
  outside this file.  The storage-class tags are the fifteen that the spec's data model
  lists; they are exactly the enumerators that the switch of \<^verbatim>\<open>list_args_or_locals\<close> names.
\<close>

datatype address_class =
    LOC_UNDEF | LOC_CONST | LOC_TYPEDEF | LOC_LABEL | LOC_BLOCK | LOC_CONST_BYTES
  | LOC_UNRESOLVED | LOC_OPTIMIZED_OUT
  | LOC_ARG | LOC_REF_ARG | LOC_REGPARM_ADDR | LOC_LOCAL | LOC_STATIC | LOC_REGISTER
  | LOC_COMPUTED

text \<open>
  Modelled from the spec: \<^verbatim>\<open>enum type_code\<close> is declared in gdbtypes.h.  The three aggregate
  codes that the source tests are kept, with a few scalar ones and the typedef code.
\<close>

datatype type_code =
    TYPE_CODE_PTR | TYPE_CODE_ARRAY | TYPE_CODE_STRUCT | TYPE_CODE_UNION | TYPE_CODE_ENUM
  | TYPE_CODE_INT | TYPE_CODE_FLT | TYPE_CODE_TYPEDEF

record gdb_type =
  TYPE_CODE :: type_code
  TYPE_NAME :: string

text \<open>A \<^verbatim>\<open>struct value *\<close> and an \<^verbatim>\<open>enum language\<close> are opaque handles here.\<close>

type_synonym gdb_value = nat
type_synonym language = nat

record symbol =
  SYMBOL_PRINT_NAME :: string
  SYMBOL_LINKAGE_NAME :: string
  SYMBOL_CLASS :: address_class
  SYMBOL_IS_ARGUMENT :: bool
  symbol_type :: gdb_type
  SYMBOL_LANGUAGE :: language

text \<open>
  A block: its symbols in the order \<^verbatim>\<open>ALL_BLOCK_SYMBOLS\<close> visits them, whether
  \<^verbatim>\<open>BLOCK_FUNCTION\<close> is set, and \<^verbatim>\<open>BLOCK_SUPERBLOCK\<close> (\<open>None\<close> is the null pointer).
\<close>

datatype block =
  Block (block_symbols: "symbol list") (BLOCK_FUNCTION: bool) (BLOCK_SUPERBLOCK: "block option")

text \<open>
  A frame is identified by a number and has the block \<^verbatim>\<open>get_frame_block (fi, 0)\<close> returns.
  A position in the frame chain is the list of the frames from that position outwards:
  \<^verbatim>\<open>get_prev_frame\<close> is the tail, and the empty list is the null pointer.
\<close>

record frame_info =
  frame_id :: nat
  get_frame_block :: "block option"

subsection \<open>Requests, results and the structured output\<close>

text \<open>
  \<^verbatim>\<open>enum what_to_list\<close> is declared in the file.  The enumerations \<^verbatim>\<open>print_values\<close>,
  \<^verbatim>\<open>py_bt_status\<close> and the flags of the frame filter come from mi-cmds.h and python.h;
  their enumerators here are the ones the file names.  The frame filter takes its flags
  as a bit set, which is a set of flags here, and \<^verbatim>\<open>NO_VALUES\<close> of the frame listing is
  \<open>PRINT_NO_VALUES\<close>.
\<close>

datatype what_to_list = locals | arguments | all

datatype print_values = PRINT_NO_VALUES | PRINT_ALL_VALUES | PRINT_SIMPLE_VALUES

datatype py_bt_status = PY_BT_ERROR | PY_BT_COMPLETED | PY_BT_NO_FILTERS

datatype frame_filter_flag = PRINT_LEVEL | PRINT_FRAME_INFO | PRINT_ARGS | PRINT_LOCALS

text \<open>
  The field \<^verbatim>\<open>entry_kind\<close> of a \<^verbatim>\<open>struct frame_arg\<close> is a pointer compared with
  \<^verbatim>\<open>print_entry_values_no\<close> and \<^verbatim>\<open>print_entry_values_only\<close>; every other value is one
  constructor, which the third assertion of \<^verbatim>\<open>list_arg_or_local\<close> rejects.
\<close>

datatype entry_kind_t =
  print_entry_values_no | print_entry_values_only | print_entry_values_other

record frame_arg =
  sym :: symbol
  val :: "gdb_value option"
  error :: "string option"
  entry_kind :: entry_kind_t

text \<open>
  What ends a command early: \<^verbatim>\<open>error (...)\<close> with its message, a failed \<^verbatim>\<open>gdb_assert\<close>
  (an internal error, with the asserted expression), and a read of \<^verbatim>\<open>argv[k]\<close> with
  \<open>k\<close> not below \<^verbatim>\<open>argc\<close>, which C leaves undefined.
\<close>

datatype cmd_error =
    Error string
  | Internal_Error string
  | Argv_Out_Of_Range nat

text \<open>
  The \<^verbatim>\<open>ui_out\<close> sink is a tree: integer and string fields, tuples and lists (opened by
  \<^verbatim>\<open>make_cleanup_ui_out_tuple_begin_end\<close> and \<^verbatim>\<open>make_cleanup_ui_out_list_begin_end\<close>, closed
  by \<^verbatim>\<open>do_cleanups\<close>), and \<open>Frame_Info fi\<close> for what
  \<^verbatim>\<open>print_frame_info (fi, 1, LOC_AND_ADDRESS, 0)\<close> writes for the frame \<open>fi\<close>.
\<close>

datatype ui_out =
    Field_Int string int
  | Field_Stream string string
  | Tuple "string option" "ui_out list"
  | UList string "ui_out list"
  | Frame_Info frame_info

text \<open>
  Modelled from the spec: \<^verbatim>\<open>read_frame_arg\<close> is defined in stack.c, outside this file.
  By the spec the fetch gives a value or an error for a request and may change its
  entry kind; so it returns, for each of the two structures it is handed, the three fields
  \<^verbatim>\<open>val\<close>, \<^verbatim>\<open>error\<close> and \<^verbatim>\<open>entry_kind\<close>, and \<^verbatim>\<open>sym\<close> stays the symbol passed.
\<close>

record fetched =
  fetched_val :: "gdb_value option"
  fetched_error :: "string option"
  fetched_entry_kind :: entry_kind_t

record filter_args =
  fa_frame :: "frame_info option"
  fa_flags :: "frame_filter_flag set"
  fa_values :: print_values
  fa_frame_low :: int
  fa_frame_high :: int

text \<open>
  The functions the commands call in other modules.  \<open>frame_filters\<close> is the static flag
  of the file; \<open>get_current_frame\<close> is the frame chain from the innermost frame;
  \<open>mi_getopt\<close>, for the prefix and the option table of \<^verbatim>\<open>-stack-list-frames\<close>, takes
  the argument vector and \<^verbatim>\<open>oind\<close> and returns the option found (negative at the end of
  the options) with the new \<^verbatim>\<open>oind\<close>, or raises;
  \<open>read_frame_arg\<close> returns what it stores in \<^verbatim>\<open>arg\<close> and in \<^verbatim>\<open>entryarg\<close>;
  \<open>common_val_print\<close> returns
  the text it wrote to the stream and the message of the error it threw, if any.
\<close>

record env =
  frame_filters :: bool
  get_current_frame :: "frame_info list"
  get_selected_frame :: frame_info
  atoi :: "string \<Rightarrow> int"
  mi_getopt :: "string list \<Rightarrow> nat \<Rightarrow> cmd_error + int \<times> nat"
  mi_parse_print_values :: "string \<Rightarrow> cmd_error + print_values"
  apply_frame_filter :: "filter_args \<Rightarrow> py_bt_status"
  lookup_symbol :: "string \<Rightarrow> block \<Rightarrow> symbol option"
  read_frame_arg :: "symbol \<Rightarrow> frame_info \<Rightarrow> fetched \<times> fetched"
  check_typedef :: "gdb_type \<Rightarrow> gdb_type"
  type_print :: "gdb_type \<Rightarrow> string"
  common_val_print :: "gdb_value \<Rightarrow> language \<Rightarrow> string \<times> string option"

subsection \<open>\<^verbatim>\<open>list_arg_or_local\<close>\<close>

text \<open>
  The text of the value field (lines 417 to 440): the stream is empty when this part
  starts, since \<^verbatim>\<open>ui_out_field_stream\<close> rewinds it.  With \<^verbatim>\<open>arg->error\<close> set the message is
  that error; otherwise the value is printed inside \<^verbatim>\<open>TRY_CATCH\<close> and the message is the
  one of the exception caught, if any.
\<close>

definition value_text :: "env \<Rightarrow> frame_arg \<Rightarrow> string" where
  "value_text e arg =
     (case error arg of
        Some msg \<Rightarrow> ''<error reading variable: '' @ msg @ ''>''
      | None \<Rightarrow>
          (case val arg of
             None \<Rightarrow> []
           | Some v \<Rightarrow>
               (case common_val_print e v (SYMBOL_LANGUAGE (sym arg)) of
                  (written, None) \<Rightarrow> written
                | (written, Some msg) \<Rightarrow>
                    written @ ''<error reading variable: '' @ msg @ ''>'')))"

text \<open>
  The fields written for one argument or local, in order (lines 402 to 441): the name,
  with \<^verbatim>\<open>@entry\<close> for an entry value; \<^verbatim>\<open>arg\<close> for an argument when all variables are
  listed; the type for \<^verbatim>\<open>PRINT_SIMPLE_VALUES\<close>; the value when there is a value or an error.
\<close>

definition arg_fields ::
  "env \<Rightarrow> frame_arg \<Rightarrow> what_to_list \<Rightarrow> print_values \<Rightarrow> ui_out list" where
  "arg_fields e arg what values =
     Field_Stream ''name''
        (SYMBOL_PRINT_NAME (sym arg)
         @ (if entry_kind arg = print_entry_values_only then ''@entry'' else []))
     # (if what = all \<and> SYMBOL_IS_ARGUMENT (sym arg) then [Field_Int ''arg'' 1] else [])
     @ (if values = PRINT_SIMPLE_VALUES
        then [Field_Stream ''type'' (type_print e (symbol_type (sym arg)))] else [])
     @ (if val arg \<noteq> None \<or> error arg \<noteq> None
        then [Field_Stream ''value'' (value_text e arg)] else [])"

text \<open>
  \<^verbatim>\<open>list_arg_or_local\<close>: the three assertions, then the fields, inside a tuple unless only
  the names of the arguments or of the locals are listed.
\<close>

definition list_arg_or_local ::
  "env \<Rightarrow> frame_arg \<Rightarrow> what_to_list \<Rightarrow> print_values \<Rightarrow> cmd_error + ui_out list" where
  "list_arg_or_local e arg what values =
     (if \<not> (val arg = None \<or> error arg = None)
      then Inl (Internal_Error ''!arg->val || !arg->error'')
      else if \<not> ((values = PRINT_NO_VALUES \<and> val arg = None \<and> error arg = None)
                 \<or> values = PRINT_SIMPLE_VALUES
                 \<or> (values = PRINT_ALL_VALUES \<and> (val arg \<noteq> None \<or> error arg \<noteq> None)))
      then Inl (Internal_Error
             (''(values == PRINT_NO_VALUES && arg->val == NULL && arg->error == NULL) ''
              @ ''|| values == PRINT_SIMPLE_VALUES ''
              @ ''|| (values == PRINT_ALL_VALUES && (arg->val != NULL || arg->error != NULL))''))
      else if \<not> (entry_kind arg = print_entry_values_no
                 \<or> (entry_kind arg = print_entry_values_only
                     \<and> (val arg \<noteq> None \<or> error arg \<noteq> None)))
      then Inl (Internal_Error
             (''arg->entry_kind == print_entry_values_no ''
              @ ''|| (arg->entry_kind == print_entry_values_only && (arg->val || arg->error))''))
      else Inr (if values \<noteq> PRINT_NO_VALUES \<or> what = all
                then [Tuple None (arg_fields e arg what values)]
                else arg_fields e arg what values))"

subsection \<open>\<^verbatim>\<open>list_args_or_locals\<close>\<close>

text \<open>The switch on \<^verbatim>\<open>SYMBOL_CLASS (sym)\<close> that sets \<^verbatim>\<open>print_me\<close> (lines 487 to 517).\<close>

definition print_me :: "what_to_list \<Rightarrow> symbol \<Rightarrow> bool" where
  "print_me what s =
     (case SYMBOL_CLASS s of
        LOC_UNDEF \<Rightarrow> False
      | LOC_CONST \<Rightarrow> False
      | LOC_TYPEDEF \<Rightarrow> False
      | LOC_LABEL \<Rightarrow> False
      | LOC_BLOCK \<Rightarrow> False
      | LOC_CONST_BYTES \<Rightarrow> False
      | LOC_UNRESOLVED \<Rightarrow> False
      | LOC_OPTIMIZED_OUT \<Rightarrow> False
      | _ \<Rightarrow>
          (if what = all then True
           else if what = locals then \<not> SYMBOL_IS_ARGUMENT s
           else SYMBOL_IS_ARGUMENT s))"

text \<open>
  The two structures after the switch on \<^verbatim>\<open>values\<close> (lines 531 to 550): both start zeroed
  with \<^verbatim>\<open>sym2\<close> and \<^verbatim>\<open>print_entry_values_no\<close>; \<^verbatim>\<open>read_frame_arg\<close> is called for
  \<^verbatim>\<open>PRINT_ALL_VALUES\<close>, and for \<^verbatim>\<open>PRINT_SIMPLE_VALUES\<close> when the type, after
  \<^verbatim>\<open>check_typedef\<close>, is no array, struct or union.
\<close>

definition zeroed_arg :: "symbol \<Rightarrow> frame_arg" where
  "zeroed_arg sym2 =
     \<lparr>sym = sym2, val = None, error = None, entry_kind = print_entry_values_no\<rparr>"

definition filled_arg :: "symbol \<Rightarrow> fetched \<Rightarrow> frame_arg" where
  "filled_arg sym2 r =
     \<lparr>sym = sym2, val = fetched_val r, error = fetched_error r,
      entry_kind = fetched_entry_kind r\<rparr>"

definition fetch_args ::
  "env \<Rightarrow> print_values \<Rightarrow> symbol \<Rightarrow> frame_info \<Rightarrow> frame_arg \<times> frame_arg" where
  "fetch_args e values sym2 fi =
     (case values of
        PRINT_SIMPLE_VALUES \<Rightarrow>
          (let type = check_typedef e (symbol_type sym2)
           in if TYPE_CODE type \<noteq> TYPE_CODE_ARRAY
                 \<and> TYPE_CODE type \<noteq> TYPE_CODE_STRUCT
                 \<and> TYPE_CODE type \<noteq> TYPE_CODE_UNION
              then (case read_frame_arg e sym2 fi of
                      (r, r_entry) \<Rightarrow> (filled_arg sym2 r, filled_arg sym2 r_entry))
              else (zeroed_arg sym2, zeroed_arg sym2))
      | PRINT_ALL_VALUES \<Rightarrow>
          (case read_frame_arg e sym2 fi of
             (r, r_entry) \<Rightarrow> (filled_arg sym2 r, filled_arg sym2 r_entry))
      | PRINT_NO_VALUES \<Rightarrow> (zeroed_arg sym2, zeroed_arg sym2))"

text \<open>The symbol \<^verbatim>\<open>sym2\<close> of lines 523 to 529, \<open>None\<close> where the assertion fails.\<close>

definition resolve_sym2 :: "env \<Rightarrow> block \<Rightarrow> symbol \<Rightarrow> symbol option" where
  "resolve_sym2 e blk s =
     (if SYMBOL_IS_ARGUMENT s then lookup_symbol e (SYMBOL_LINKAGE_NAME s) blk else Some s)"

text \<open>
  The body of the loop over the symbols of a block (lines 487 to 558).  A failure of
  an assertion propagates; what was written before it is not kept.
\<close>

definition list_symbol ::
  "env \<Rightarrow> what_to_list \<Rightarrow> print_values \<Rightarrow> frame_info \<Rightarrow> block \<Rightarrow> symbol
     \<Rightarrow> cmd_error + ui_out list" where
  "list_symbol e what values fi blk s =
     (if \<not> print_me what s then Inr []
      else
        (case resolve_sym2 e blk s of
           None \<Rightarrow> Inl (Internal_Error ''sym2 != NULL'')
         | Some sym2 \<Rightarrow>
             (case fetch_args e values sym2 fi of
                (arg, entryarg) \<Rightarrow>
                  (case (if entry_kind arg \<noteq> print_entry_values_only
                         then list_arg_or_local e arg what values else Inr []) of
                     Inl err \<Rightarrow> Inl err
                   | Inr out1 \<Rightarrow>
                       (case (if entry_kind entryarg \<noteq> print_entry_values_no
                              then list_arg_or_local e entryarg what values else Inr []) of
                          Inl err \<Rightarrow> Inl err
                        | Inr out2 \<Rightarrow> Inr (out1 @ out2))))))"

text \<open>\<^verbatim>\<open>ALL_BLOCK_SYMBOLS (block, iter, sym)\<close>: the symbols of one block, in order.\<close>

fun list_block_symbols ::
  "env \<Rightarrow> what_to_list \<Rightarrow> print_values \<Rightarrow> frame_info \<Rightarrow> block \<Rightarrow> symbol list
     \<Rightarrow> cmd_error + ui_out list" where
  "list_block_symbols e what values fi blk [] = Inr []"
| "list_block_symbols e what values fi blk (s # ss) =
     (case list_symbol e what values fi blk s of
        Inl err \<Rightarrow> Inl err
      | Inr out1 \<Rightarrow>
          (case list_block_symbols e what values fi blk ss of
             Inl err \<Rightarrow> Inl err
           | Inr out2 \<Rightarrow> Inr (out1 @ out2)))"

text \<open>
  \<^verbatim>\<open>while (block != 0)\<close>: the block, then its superblock, stopping after the block of the
  function.
\<close>

fun list_blocks ::
  "env \<Rightarrow> what_to_list \<Rightarrow> print_values \<Rightarrow> frame_info \<Rightarrow> block \<Rightarrow> cmd_error + ui_out list" where
  "list_blocks e what values fi (Block syms is_function super) =
     (case list_block_symbols e what values fi (Block syms is_function super) syms of
        Inl err \<Rightarrow> Inl err
      | Inr out1 \<Rightarrow>
          (if is_function then Inr out1
           else
             (case super of
                None \<Rightarrow> Inr out1
              | Some b \<Rightarrow>
                  (case list_blocks e what values fi b of
                     Inl err \<Rightarrow> Inl err
                   | Inr out2 \<Rightarrow> Inr (out1 @ out2)))))"

fun name_of_result :: "what_to_list \<Rightarrow> string" where
  "name_of_result locals = ''locals''"
| "name_of_result arguments = ''args''"
| "name_of_result all = ''variables''"

definition list_args_or_locals ::
  "env \<Rightarrow> what_to_list \<Rightarrow> print_values \<Rightarrow> frame_info \<Rightarrow> cmd_error + ui_out list" where
  "list_args_or_locals e what values fi =
     (case (case get_frame_block fi of
              None \<Rightarrow> Inr []
            | Some b \<Rightarrow> list_blocks e what values fi b) of
        Inl err \<Rightarrow> Inl err
      | Inr out \<Rightarrow> Inr [UList (name_of_result what) out])"

subsection \<open>The commands\<close>

text \<open>
  What a command did: the error that ended it before anything was listed, if any; the
  arguments of its call of \<^verbatim>\<open>apply_frame_filter\<close>, if it made one; and what the built-in
  path wrote, if control entered it (\<open>Inl\<close> when an assertion failed in it).  In
  \<^verbatim>\<open>-stack-list-frames\<close> and \<^verbatim>\<open>-stack-list-arguments\<close> the filter and the built-in path
  both write inside the list \<^verbatim>\<open>stack\<close>, respectively \<^verbatim>\<open>stack-args\<close>, opened after the
  check for enough frames.
\<close>

record outcome =
  raised :: "cmd_error option"
  filter_call :: "filter_args option"
  builtin :: "(cmd_error + ui_out list) option"

definition fail :: "cmd_error \<Rightarrow> outcome" where
  "fail err = \<lparr>raised = Some err, filter_call = None, builtin = None\<rparr>"

definition parse_no_frames_option :: "string \<Rightarrow> nat" where
  "parse_no_frames_option arg = (if arg = ''--no-frame-filters'' then 1 else 0)"

text \<open>A read of \<^verbatim>\<open>argv[k]\<close>: defined for the \<^verbatim>\<open>argc\<close> arguments only.\<close>

definition argv_at :: "string list \<Rightarrow> nat \<Rightarrow> cmd_error + string" where
  "argv_at argv k = (if k < length argv then Inr (argv ! k) else Inl (Argv_Out_Of_Range k))"

text \<open>
  The loop that positions \<^verbatim>\<open>fi\<close> on the frame at which to start (lines 134 to 136 and
  284 to 286): it returns the counter \<^verbatim>\<open>i\<close> and the position reached.
\<close>

fun position_frame :: "int \<Rightarrow> int \<Rightarrow> frame_info list \<Rightarrow> int \<times> frame_info list" where
  "position_frame i frame_low [] = (i, [])"
| "position_frame i frame_low (f # fs) =
     (if i < frame_low then position_frame (i + 1) frame_low fs else (i, f # fs))"

text \<open>The frame \<^verbatim>\<open>get_current_frame ()\<close> hands to the filter: the head of the chain.\<close>

fun innermost :: "frame_info list \<Rightarrow> frame_info option" where
  "innermost [] = None"
| "innermost (f # fs) = Some f"

text \<open>The built-in loop of \<^verbatim>\<open>-stack-list-frames\<close> (lines 165 to 173).\<close>

fun print_frames :: "int \<Rightarrow> int \<Rightarrow> frame_info list \<Rightarrow> ui_out list" where
  "print_frames i frame_high [] = []"
| "print_frames i frame_high (f # fs) =
     (if i \<le> frame_high \<or> frame_high = - 1
      then Frame_Info f # print_frames (i + 1) frame_high fs
      else [])"

text \<open>
  \<^verbatim>\<open>mi_cmd_stack_list_frames\<close> from line 131 on, with the values parsed before:
  \<open>raw_arg\<close> (not zero when the option \<^verbatim>\<open>--no-frame-filters\<close> was parsed), \<open>frame_low\<close>
  and \<open>frame_high\<close> (both \<open>-1\<close> without a range).
\<close>

definition stack_list_frames_window :: "env \<Rightarrow> nat \<Rightarrow> int \<Rightarrow> int \<Rightarrow> outcome" where
  "stack_list_frames_window e raw_arg frame_low frame_high =
     (case position_frame 0 frame_low (get_current_frame e) of
        (i, []) \<Rightarrow> fail (Error ''-stack-list-frames: Not enough frames in stack.'')
      | (i, fi) \<Rightarrow>
          (let call =
                 (if raw_arg = 0 \<and> frame_filters e
                  then Some \<lparr>fa_frame = innermost (get_current_frame e),
                             fa_flags = {PRINT_LEVEL, PRINT_FRAME_INFO},
                             fa_values = PRINT_NO_VALUES,
                             fa_frame_low = (if frame_low = - 1 then frame_low + 1
                                             else frame_low),
                             fa_frame_high = frame_high\<rparr>
                  else None);
               result = (case call of None \<Rightarrow> PY_BT_ERROR
                         | Some a \<Rightarrow> apply_frame_filter e a)
           in \<lparr>raised = None, filter_call = call,
               builtin =
                 (if \<not> frame_filters e \<or> raw_arg \<noteq> 0 \<or> result = PY_BT_NO_FILTERS
                  then Some (Inr (print_frames i frame_high fi))
                  else None)\<rparr>))"

text \<open>
  The option loop of \<^verbatim>\<open>mi_cmd_stack_list_frames\<close> (lines 97 to 110): \<^verbatim>\<open>while (1)\<close> around
  \<^verbatim>\<open>mi_getopt\<close>, left when it returns a negative number; the option \<^verbatim>\<open>NO_FRAME_FILTERS\<close>,
  which is 0, stores \<^verbatim>\<open>oind\<close> in \<^verbatim>\<open>raw_arg\<close>.  It returns \<^verbatim>\<open>oind\<close> and \<^verbatim>\<open>raw_arg\<close>.  Nothing
  in this file bounds the number of rounds, so the loop is a partial function: \<open>None\<close> is
  the loop that does not end.
\<close>

partial_function (option) parse_frame_options ::
  "env \<Rightarrow> string list \<Rightarrow> nat \<Rightarrow> nat \<Rightarrow> (cmd_error + nat \<times> nat) option" where
  "parse_frame_options e argv oind raw_arg =
     (case mi_getopt e argv oind of
        Inl err \<Rightarrow> Some (Inl err)
      | Inr (opt, oind') \<Rightarrow>
          if opt < 0 then Some (Inr (oind', raw_arg))
          else parse_frame_options e argv oind' (if opt = 0 then oind' else raw_arg))"

text \<open>
  \<^verbatim>\<open>mi_cmd_stack_list_frames\<close>, the whole command: the options, the check that either no
  argument or two follow them, the two bounds, and the rest as above.
\<close>

definition mi_cmd_stack_list_frames :: "env \<Rightarrow> string list \<Rightarrow> outcome option" where
  "mi_cmd_stack_list_frames e argv =
     (case parse_frame_options e argv 0 0 of
        None \<Rightarrow> None
      | Some (Inl err) \<Rightarrow> Some (fail err)
      | Some (Inr (oind, raw_arg)) \<Rightarrow>
          (let argc = length argv
           in if int argc - int oind \<noteq> 0 \<and> int argc - int oind \<noteq> 2
              then Some (fail (Error (''-stack-list-frames: Usage: ''
                      @ ''[--no-frame-filters] [FRAME_LOW FRAME_HIGH]'')))
              else
                (case (if int argc - int oind = 2
                       then (case argv_at argv (0 + oind) of
                               Inl err \<Rightarrow> Inl err
                             | Inr a1 \<Rightarrow>
                                 (case argv_at argv (1 + oind) of
                                    Inl err \<Rightarrow> Inl err
                                  | Inr a2 \<Rightarrow> Inr (atoi e a1, atoi e a2)))
                       else Inr (- 1, - 1)) of
                   Inl err \<Rightarrow> Some (fail err)
                 | Inr (frame_low, frame_high) \<Rightarrow>
                     Some (stack_list_frames_window e raw_arg frame_low frame_high))))"

text \<open>The built-in loop of \<^verbatim>\<open>-stack-list-arguments\<close> (lines 316 to 327).\<close>

fun list_frames_args ::
  "env \<Rightarrow> print_values \<Rightarrow> int \<Rightarrow> int \<Rightarrow> frame_info list \<Rightarrow> cmd_error + ui_out list" where
  "list_frames_args e print_values i frame_high [] = Inr []"
| "list_frames_args e print_values i frame_high (f # fs) =
     (if i \<le> frame_high \<or> frame_high = - 1
      then
        (case list_args_or_locals e arguments print_values f of
           Inl err \<Rightarrow> Inl err
         | Inr out \<Rightarrow>
             (case list_frames_args e print_values (i + 1) frame_high fs of
                Inl err \<Rightarrow> Inl err
              | Inr outs \<Rightarrow>
                  Inr (Tuple (Some ''frame'') (Field_Int ''level'' i # out) # outs)))
      else Inr [])"

text \<open>\<^verbatim>\<open>mi_cmd_stack_list_args\<close> from line 281 on, with the values parsed before.\<close>

definition stack_list_args_window ::
  "env \<Rightarrow> nat \<Rightarrow> print_values \<Rightarrow> int \<Rightarrow> int \<Rightarrow> outcome" where
  "stack_list_args_window e raw_arg print_values frame_low frame_high =
     (case position_frame 0 frame_low (get_current_frame e) of
        (i, []) \<Rightarrow> fail (Error ''-stack-list-arguments: Not enough frames in stack.'')
      | (i, fi) \<Rightarrow>
          (let call =
                 (if raw_arg = 0 \<and> frame_filters e
                  then Some \<lparr>fa_frame = innermost (get_current_frame e),
                             fa_flags = {PRINT_LEVEL, PRINT_ARGS},
                             fa_values = print_values,
                             fa_frame_low = (if frame_low = - 1 then frame_low + 1
                                             else frame_low),
                             fa_frame_high = frame_high\<rparr>
                  else None);
               result = (case call of None \<Rightarrow> PY_BT_ERROR
                         | Some a \<Rightarrow> apply_frame_filter e a)
           in \<lparr>raised = None, filter_call = call,
               builtin =
                 (if \<not> frame_filters e \<or> raw_arg \<noteq> 0 \<or> result = PY_BT_NO_FILTERS
                  then Some (list_frames_args e print_values i frame_high fi)
                  else None)\<rparr>))"

text \<open>
  \<^verbatim>\<open>mi_cmd_stack_list_args\<close>, lines 259 to 279: the arity check, the two bounds read at
  \<^verbatim>\<open>argv[1 + raw_arg]\<close> and \<^verbatim>\<open>argv[2 + raw_arg]\<close> when there are three arguments or more,
  and the print-values token read at \<^verbatim>\<open>argv[raw_arg]\<close>.
\<close>

definition mi_cmd_stack_list_args :: "env \<Rightarrow> string list \<Rightarrow> outcome" where
  "mi_cmd_stack_list_args e argv =
     (let argc = length argv;
          raw_arg = (if argc > 0 then parse_no_frames_option (argv ! 0) else 0)
      in if argc < 1 \<or> (argc > 3 \<and> raw_arg = 0) \<or> (argc = 2 \<and> raw_arg = 0)
         then fail (Error (''-stack-list-arguments: Usage: ''
                 @ ''[--no-frame-filters] PRINT_VALUES [FRAME_LOW FRAME_HIGH]''))
         else
           (case (if argc \<ge> 3
                  then (case argv_at argv (1 + raw_arg) of
                          Inl err \<Rightarrow> Inl err
                        | Inr a1 \<Rightarrow>
                            (case argv_at argv (2 + raw_arg) of
                               Inl err \<Rightarrow> Inl err
                             | Inr a2 \<Rightarrow> Inr (atoi e a1, atoi e a2)))
                  else Inr (- 1, - 1)) of
              Inl err \<Rightarrow> fail err
            | Inr (frame_low, frame_high) \<Rightarrow>
                (case argv_at argv raw_arg of
                   Inl err \<Rightarrow> fail err
                 | Inr a \<Rightarrow>
                     (case mi_parse_print_values e a of
                        Inl err \<Rightarrow> fail err
                      | Inr print_values \<Rightarrow>
                          stack_list_args_window e raw_arg print_values
                            frame_low frame_high))))"

text \<open>\<^verbatim>\<open>mi_cmd_stack_list_locals\<close> from line 226 on, and the whole command.\<close>

definition stack_list_locals_dispatch :: "env \<Rightarrow> nat \<Rightarrow> print_values \<Rightarrow> outcome" where
  "stack_list_locals_dispatch e raw_arg print_value =
     (let frame = get_selected_frame e;
          call =
            (if raw_arg = 0 \<and> frame_filters e
             then Some \<lparr>fa_frame = Some frame, fa_flags = {PRINT_LEVEL, PRINT_LOCALS},
                        fa_values = print_value, fa_frame_low = 0, fa_frame_high = 0\<rparr>
             else None);
          result = (case call of None \<Rightarrow> PY_BT_ERROR | Some a \<Rightarrow> apply_frame_filter e a)
      in \<lparr>raised = None, filter_call = call,
          builtin =
            (if \<not> frame_filters e \<or> raw_arg \<noteq> 0 \<or> result = PY_BT_NO_FILTERS
             then Some (list_args_or_locals e locals print_value frame)
             else None)\<rparr>)"

definition mi_cmd_stack_list_locals :: "env \<Rightarrow> string list \<Rightarrow> outcome" where
  "mi_cmd_stack_list_locals e argv =
     (let argc = length argv;
          raw_arg = (if argc > 0 then parse_no_frames_option (argv ! 0) else 0)
      in if argc < 1 \<or> argc > 2 \<or> (argc = 2 \<and> raw_arg = 0) \<or> (argc = 1 \<and> raw_arg \<noteq> 0)
         then fail (Error ''-stack-list-locals: Usage: [--no-frame-filters] PRINT_VALUES'')
         else
           (case argv_at argv raw_arg of
              Inl err \<Rightarrow> fail err
            | Inr a \<Rightarrow>
                (case mi_parse_print_values e a of
                   Inl err \<Rightarrow> fail err
                 | Inr print_value \<Rightarrow> stack_list_locals_dispatch e raw_arg print_value)))"



text \<open>\<^verbatim>\<open>mi_cmd_enable_frame_filters\<close>: the only writer of the flag.\<close>

definition mi_cmd_enable_frame_filters :: "env \<Rightarrow> string list \<Rightarrow> cmd_error + env" where
  "mi_cmd_enable_frame_filters e argv =
     (if length argv \<noteq> 0 then Inl (Error ''-enable-frame-filters: no arguments allowed'')
      else Inr (e\<lparr>frame_filters := True\<rparr>))"

subsection \<open>The four requests\<close>





subsection \<open>Observers of the output\<close>

text \<open>
  The fields of a record of the listing (those of the tuple, or the bare field when no
  tuple was opened), and the text of the first stream field with a given name.
\<close>

fun record_fields :: "ui_out \<Rightarrow> ui_out list" where
  "record_fields (Tuple n fs) = fs"
| "record_fields other = [other]"

fun stream_field :: "string \<Rightarrow> ui_out list \<Rightarrow> string option" where
  "stream_field n [] = None"
| "stream_field n (Field_Stream m t # rest) = (if m = n then Some t else stream_field n rest)"
| "stream_field n (other # rest) = stream_field n rest"

definition field_of :: "string \<Rightarrow> ui_out \<Rightarrow> string option" where
  "field_of n r = stream_field n (record_fields r)"

text \<open>The three assertions at the head of \<^verbatim>\<open>list_arg_or_local\<close>, as one condition.\<close>

definition asserts_hold :: "print_values \<Rightarrow> frame_arg \<Rightarrow> bool" where
  "asserts_hold values arg \<longleftrightarrow>
     (val arg = None \<or> error arg = None)
     \<and> ((values = PRINT_NO_VALUES \<and> val arg = None \<and> error arg = None)
        \<or> values = PRINT_SIMPLE_VALUES
        \<or> (values = PRINT_ALL_VALUES \<and> (val arg \<noteq> None \<or> error arg \<noteq> None)))
     \<and> (entry_kind arg = print_entry_values_no
        \<or> (entry_kind arg = print_entry_values_only
            \<and> (val arg \<noteq> None \<or> error arg \<noteq> None)))"

text \<open>
  The symbols that the walk of \<^verbatim>\<open>list_args_or_locals\<close> visits for a frame, each with the
  block it is found in, in the order of the walk: the block of the frame, then its
  superblocks up to and including the block of the function.
\<close>

fun walked_blocks :: "block \<Rightarrow> block list" where
  "walked_blocks (Block syms is_function super) =
     Block syms is_function super
     # (if is_function then []
        else (case super of None \<Rightarrow> [] | Some b \<Rightarrow> walked_blocks b))"

definition frame_symbols :: "frame_info \<Rightarrow> (block \<times> symbol) list" where
  "frame_symbols fi =
     (case get_frame_block fi of
        None \<Rightarrow> []
      | Some b \<Rightarrow> concat (map (\<lambda>blk. map (Pair blk) (block_symbols blk)) (walked_blocks b)))"

text \<open>
  What a run of listings writes when each is done on its own, one after the other: all
  their records in order, or the first error.
\<close>

fun collect :: "(cmd_error + ui_out list) list \<Rightarrow> cmd_error + ui_out list" where
  "collect [] = Inr []"
| "collect (r # rs) =
     (case r of
        Inl err \<Rightarrow> Inl err
      | Inr out1 \<Rightarrow>
          (case collect rs of
             Inl err \<Rightarrow> Inl err
           | Inr out2 \<Rightarrow> Inr (out1 @ out2)))"

subsection \<open>A small debugger state\<close>

text \<open>
  A function \<open>f (int x)\<close> with the locals \<open>s\<close>, a struct, and \<open>n\<close>, an int, on a stack three
  frames deep.  The fetch of \<open>x\<close> fails at its normal location and at its entry location;
  the other fetches succeed.
\<close>

definition ex_int :: gdb_type where
  "ex_int = \<lparr>TYPE_CODE = TYPE_CODE_INT, TYPE_NAME = ''int''\<rparr>"

definition ex_struct :: gdb_type where
  "ex_struct = \<lparr>TYPE_CODE = TYPE_CODE_STRUCT, TYPE_NAME = ''struct pt''\<rparr>"

definition ex_x :: symbol where
  "ex_x = \<lparr>SYMBOL_PRINT_NAME = ''x'', SYMBOL_LINKAGE_NAME = ''x'', SYMBOL_CLASS = LOC_COMPUTED,
           SYMBOL_IS_ARGUMENT = True, symbol_type = ex_int, SYMBOL_LANGUAGE = 0\<rparr>"

definition ex_s :: symbol where
  "ex_s = \<lparr>SYMBOL_PRINT_NAME = ''s'', SYMBOL_LINKAGE_NAME = ''s'', SYMBOL_CLASS = LOC_LOCAL,
           SYMBOL_IS_ARGUMENT = False, symbol_type = ex_struct, SYMBOL_LANGUAGE = 0\<rparr>"

definition ex_n :: symbol where
  "ex_n = \<lparr>SYMBOL_PRINT_NAME = ''n'', SYMBOL_LINKAGE_NAME = ''n'', SYMBOL_CLASS = LOC_LOCAL,
           SYMBOL_IS_ARGUMENT = False, symbol_type = ex_int, SYMBOL_LANGUAGE = 0\<rparr>"

definition ex_block :: block where
  "ex_block = Block [ex_x, ex_s, ex_n] True None"

definition ex_frame :: "nat \<Rightarrow> frame_info" where
  "ex_frame k = \<lparr>frame_id = k, get_frame_block = Some ex_block\<rparr>"

definition ex_fetch :: "symbol \<Rightarrow> frame_info \<Rightarrow> fetched \<times> fetched" where
  "ex_fetch s fi =
     (if SYMBOL_PRINT_NAME s = ''x''
      then (\<lparr>fetched_val = None, fetched_error = Some ''Cannot access memory at address 0x10'',
             fetched_entry_kind = print_entry_values_no\<rparr>,
            \<lparr>fetched_val = None, fetched_error = Some ''Cannot access memory at address 0x10'',
             fetched_entry_kind = print_entry_values_only\<rparr>)
      else (\<lparr>fetched_val = Some 7, fetched_error = None,
             fetched_entry_kind = print_entry_values_no\<rparr>,
            \<lparr>fetched_val = None, fetched_error = None,
             fetched_entry_kind = print_entry_values_no\<rparr>))"

definition ex_parse_print_values :: "string \<Rightarrow> cmd_error + print_values" where
  "ex_parse_print_values name =
     (if name = ''0'' \<or> name = ''--no-values'' then Inr PRINT_NO_VALUES
      else if name = ''1'' \<or> name = ''--all-values'' then Inr PRINT_ALL_VALUES
      else if name = ''2'' \<or> name = ''--simple-values'' then Inr PRINT_SIMPLE_VALUES
      else Inl (Error ''Unknown value for PRINT_VALUES''))"

definition ex_getopt :: "string list \<Rightarrow> nat \<Rightarrow> cmd_error + int \<times> nat" where
  "ex_getopt argv oind =
     (if oind < length argv \<and> argv ! oind = ''--no-frame-filters'' then Inr (0, oind + 1)
      else Inr (- 1, oind))"

definition ex_env :: env where
  "ex_env =
     \<lparr>frame_filters = False,
      get_current_frame = [ex_frame 0, ex_frame 1, ex_frame 2],
      get_selected_frame = ex_frame 0,
      atoi = (\<lambda>s. 0),
      mi_getopt = ex_getopt,
      mi_parse_print_values = ex_parse_print_values,
      apply_frame_filter = (\<lambda>a. PY_BT_NO_FILTERS),
      lookup_symbol = (\<lambda>name blk. find (\<lambda>s. SYMBOL_LINKAGE_NAME s = name) (block_symbols blk)),
      read_frame_arg = ex_fetch,
      check_typedef = (\<lambda>t. t),
      type_print = TYPE_NAME,
      common_val_print = (\<lambda>v l. (''7'', None))\<rparr>"

text \<open>
  A second frame of the same function, in a block with two arguments: \<open>x\<close>, whose
  fetches fail, and after it \<open>y\<close>, whose fetch succeeds.
\<close>

definition ex_y :: symbol where
  "ex_y = \<lparr>SYMBOL_PRINT_NAME = ''y'', SYMBOL_LINKAGE_NAME = ''y'', SYMBOL_CLASS = LOC_ARG,
           SYMBOL_IS_ARGUMENT = True, symbol_type = ex_int, SYMBOL_LANGUAGE = 0\<rparr>"

definition ex_pair_block :: block where
  "ex_pair_block = Block [ex_x, ex_y] True None"

definition ex_pair_frame :: frame_info where
  "ex_pair_frame = \<lparr>frame_id = 0, get_frame_block = Some ex_pair_block\<rparr>"

text \<open>The same state with the frame filters enabled.\<close>

definition ex_filtering :: env where
  "ex_filtering = ex_env\<lparr>frame_filters := True\<rparr>"

section \<open>Properties\<close>

subsection \<open>The frame window\<close>

lemma position_frame_eq:
  "position_frame i frame_low fs =
     (i + int (min (nat (frame_low - i)) (length fs)), drop (nat (frame_low - i)) fs)"
proof (induction fs arbitrary: i)
  case Nil
  show ?case by simp
next
  case (Cons f fs)
  show ?case
  proof (cases "i < frame_low")
    case True
    then have n: "nat (frame_low - i) = Suc (nat (frame_low - (i + 1)))" by simp
    from True show ?thesis
      by (simp add: Cons.IH n)
  next
    case False
    then show ?thesis by simp
  qed
qed

lemma print_frames_eq:
  "print_frames i frame_high fs =
     map Frame_Info (if frame_high = - 1 then fs else take (nat (frame_high - i + 1)) fs)"
proof (induction fs arbitrary: i)
  case Nil
  show ?case by simp
next
  case (Cons f fs)
  show ?case
  proof (cases "frame_high = - 1")
    case True
    then show ?thesis using Cons.IH [of "i + 1"] by simp
  next
    case unbounded: False
    show ?thesis
    proof (cases "i \<le> frame_high")
      case True
      then have n: "nat (frame_high - i + 1) = Suc (nat (frame_high - (i + 1) + 1))" by simp
      from True unbounded show ?thesis
        by (simp add: Cons.IH n)
    next
      case False
      with unbounded show ?thesis by simp
    qed
  qed
qed

lemma position_frame_short:
  "int (length fs) \<le> frame_low - i \<Longrightarrow> snd (position_frame i frame_low fs) = []"
  by (simp add: position_frame_eq)

lemma position_frame_within:
  "nat (frame_low - i) < length fs \<Longrightarrow>
   position_frame i frame_low fs = (i + int (nat (frame_low - i)), drop (nat (frame_low - i)) fs)
   \<and> drop (nat (frame_low - i)) fs \<noteq> []"
  by (cases fs) (auto simp: position_frame_eq min_def)

lemma list_frames_args_eq:
  "list_frames_args e pv i frame_high fs = Inr outs \<Longrightarrow>
   length outs = length (if frame_high = - 1 then fs else take (nat (frame_high - i + 1)) fs)
   \<and> (\<forall>k < length outs. \<exists>out.
         list_args_or_locals e arguments pv (fs ! k) = Inr out
         \<and> outs ! k = Tuple (Some ''frame'') (Field_Int ''level'' (i + int k) # out))"
proof (induction fs arbitrary: i outs)
  case Nil
  then show ?case by simp
next
  case (Cons f fs)
  show ?case
  proof (cases "i \<le> frame_high \<or> frame_high = - 1")
    case False
    with Cons.prems show ?thesis by simp
  next
    case True
    with Cons.prems obtain out rest where
      o: "list_args_or_locals e arguments pv f = Inr out"
      and r: "list_frames_args e pv (i + 1) frame_high fs = Inr rest"
      and outs: "outs = Tuple (Some ''frame'') (Field_Int ''level'' i # out) # rest"
      by (auto split: sum.splits)
    from Cons.IH [OF r] have
      len: "length rest =
              length (if frame_high = - 1 then fs else take (nat (frame_high - (i + 1) + 1)) fs)"
      and nth: "\<And>k. k < length rest \<Longrightarrow> \<exists>out.
         list_args_or_locals e arguments pv (fs ! k) = Inr out
         \<and> rest ! k = Tuple (Some ''frame'') (Field_Int ''level'' (i + 1 + int k) # out)"
      by blast+
    have "length outs =
            length (if frame_high = - 1 then f # fs
                    else take (nat (frame_high - i + 1)) (f # fs))"
    proof (cases "frame_high = - 1")
      case True
      with len outs show ?thesis by simp
    next
      case False
      with True have "i \<le> frame_high" by simp
      then have "nat (frame_high - i + 1) = Suc (nat (frame_high - (i + 1) + 1))" by simp
      with len outs False show ?thesis by simp
    qed
    moreover have "\<exists>out'. list_args_or_locals e arguments pv ((f # fs) ! k) = Inr out'
         \<and> outs ! k = Tuple (Some ''frame'') (Field_Int ''level'' (i + int k) # out')"
      if "k < length outs" for k
    proof (cases k)
      case 0
      with o outs show ?thesis by simp
    next
      case (Suc j)
      with that outs have "j < length rest" by simp
      from nth [OF this] Suc outs show ?thesis by (simp add: algebra_simps)
    qed
    ultimately show ?thesis by blast
  qed
qed

subsection \<open>The options of \<^verbatim>\<open>-stack-list-frames\<close>\<close>

text \<open>
  The whole command returns when \<^verbatim>\<open>mi_getopt\<close> reports the end of the options: without
  arguments it is the listing with \<open>raw_arg = 0\<close> and both bounds \<open>-1\<close>; with an option
  parser that knows \<^verbatim>\<open>--no-frame-filters\<close>, the token alone gives \<open>raw_arg = 1\<close>.
\<close>

lemma list_frames_no_arguments:
  assumes "mi_getopt e [] 0 = Inr (opt, 0)" and "opt < 0"
  shows "mi_cmd_stack_list_frames e [] = Some (stack_list_frames_window e 0 (- 1) (- 1))"
proof -
  from assms have "parse_frame_options e [] 0 0 = Some (Inr (0, 0))"
    by (subst parse_frame_options.simps) simp
  then show ?thesis by (simp add: mi_cmd_stack_list_frames_def)
qed

text \<open>Every run of the whole command that raises nothing is a run of the part from line 131 on.\<close>

lemma list_frames_parsed:
  assumes "mi_cmd_stack_list_frames e argv = Some r" and "raised r = None"
  shows "\<exists>raw_arg frame_low frame_high.
           r = stack_list_frames_window e raw_arg frame_low frame_high"
  using assms unfolding mi_cmd_stack_list_frames_def Let_def
  by (auto simp: fail_def split: option.splits sum.splits prod.splits if_splits)

lemma list_frames_opt_out_example:
  "mi_cmd_stack_list_frames ex_env [''--no-frame-filters'']
     = Some (stack_list_frames_window ex_env 1 (- 1) (- 1))"
proof -
  have g0: "mi_getopt ex_env [''--no-frame-filters''] 0 = Inr (0, 1)"
    and g1: "mi_getopt ex_env [''--no-frame-filters''] (Suc 0) = Inr (- 1, Suc 0)"
    by (simp_all add: ex_env_def ex_getopt_def)
  have "parse_frame_options ex_env [''--no-frame-filters''] (Suc 0) (Suc 0)
          = Some (Inr (Suc 0, Suc 0))"
    by (subst parse_frame_options.simps) (simp add: g1)
  then have "parse_frame_options ex_env [''--no-frame-filters''] 0 0 = Some (Inr (1, 1))"
    by (subst parse_frame_options.simps) (simp add: g0)
  then show ?thesis by (simp add: mi_cmd_stack_list_frames_def)
qed

subsection \<open>The dispatcher\<close>













subsection \<open>Windows inside the stack\<close>

text \<open>
  Claim C3.  For bounds with \<open>0 \<le> low \<le> high < depth\<close> the request passes the check for
  enough frames, and the built-in path, when it runs, emits exactly \<open>high - low + 1\<close>
  frame records: the \<open>k\<close>-th one is the record of the frame at depth \<open>low + k\<close>.  In the
  frame listing that record is what \<^verbatim>\<open>print_frame_info\<close> writes for the frame, level
  included; in the argument listing it is a tuple \<^verbatim>\<open>frame\<close> whose field \<^verbatim>\<open>level\<close> is
  \<open>low + k\<close>, followed by the arguments of that frame.
\<close>

theorem frame_window_records:
  assumes "0 \<le> low" and "low \<le> high" and "high < int (length (get_current_frame e))"
  shows "raised (stack_list_frames_window e raw_arg low high) = None
       \<and> (\<forall>out. builtin (stack_list_frames_window e raw_arg low high) = Some out \<longrightarrow>
            (\<exists>recs. out = Inr recs \<and> length recs = nat (high - low + 1)
               \<and> (\<forall>k < length recs.
                     recs ! k = Frame_Info (get_current_frame e ! (nat low + k)))))
       \<and> raised (stack_list_args_window e raw_arg pv low high) = None
       \<and> (\<forall>recs. builtin (stack_list_args_window e raw_arg pv low high) = Some (Inr recs) \<longrightarrow>
            length recs = nat (high - low + 1)
            \<and> (\<forall>k < length recs. \<exists>out.
                  list_args_or_locals e arguments pv (get_current_frame e ! (nat low + k)) = Inr out
                  \<and> recs ! k = Tuple (Some ''frame'') (Field_Int ''level'' (low + int k) # out)))"
proof -
  let ?fs = "get_current_frame e"
  from assms have lt: "nat (low - 0) < length ?fs" by simp
  from position_frame_within [OF lt] assms have
    pos: "position_frame 0 low ?fs = (low, drop (nat low) ?fs)"
    and ne: "drop (nat low) ?fs \<noteq> []" by simp_all
  from ne obtain f rest where dr: "drop (nat low) ?fs = f # rest" by (cases "drop (nat low) ?fs") auto
  from assms have hi: "high \<noteq> - 1" by simp
  from assms have len: "length (take (nat (high - low + 1)) (drop (nat low) ?fs)) = nat (high - low + 1)"
    by simp
  have frames: "\<exists>recs. out = Inr recs \<and> length recs = nat (high - low + 1)
               \<and> (\<forall>k < length recs. recs ! k = Frame_Info (?fs ! (nat low + k)))"
    if "builtin (stack_list_frames_window e raw_arg low high) = Some out" for out
  proof -
    from that pos dr have "out = Inr (print_frames low high (drop (nat low) ?fs))"
      by (auto simp: stack_list_frames_window_def Let_def split: if_splits)
    with hi len show ?thesis
      by (simp add: print_frames_eq)
  qed
  have args: "length recs = nat (high - low + 1)
            \<and> (\<forall>k < length recs. \<exists>out.
                  list_args_or_locals e arguments pv (?fs ! (nat low + k)) = Inr out
                  \<and> recs ! k = Tuple (Some ''frame'') (Field_Int ''level'' (low + int k) # out))"
    if "builtin (stack_list_args_window e raw_arg pv low high) = Some (Inr recs)" for recs
  proof -
    from that pos dr have "list_frames_args e pv low high (drop (nat low) ?fs) = Inr recs"
      by (auto simp: stack_list_args_window_def Let_def split: if_splits)
    from list_frames_args_eq [OF this] hi len assms show ?thesis
      by simp
  qed
  from pos dr have "raised (stack_list_frames_window e raw_arg low high) = None"
    and "raised (stack_list_args_window e raw_arg pv low high) = None"
    by (simp_all add: stack_list_frames_window_def stack_list_args_window_def Let_def)
  with frames args show ?thesis by blast
qed


theorem frame_window_records_witness:
  "(0::int) \<le> 0 \<and> (0::int) \<le> 1 \<and> 1 < int (length (get_current_frame ex_env))
   \<and> builtin (stack_list_frames_window ex_env 0 0 1)
       = Some (Inr [Frame_Info (ex_frame 0), Frame_Info (ex_frame 1)])"
proof -
  have h: "(1::int) < int (length (get_current_frame ex_env))"
    by (simp add: ex_env_def)
  have b: "builtin (stack_list_frames_window ex_env 0 0 1)
       = Some (Inr [Frame_Info (ex_frame 0), Frame_Info (ex_frame 1)])"
    by (simp add: stack_list_frames_window_def ex_env_def Let_def)
  from frame_window_records [of 0 1 ex_env 0 PRINT_NO_VALUES, OF _ _ h] h b
  show ?thesis by simp
qed

subsection \<open>Windows beyond the stack\<close>

lemma not_enough_frames:
  assumes "int (length (get_current_frame e)) \<le> low"
  shows "stack_list_frames_window e raw_arg low high
           = fail (Error ''-stack-list-frames: Not enough frames in stack.'')"
    and "stack_list_args_window e raw_arg pv low high
           = fail (Error ''-stack-list-arguments: Not enough frames in stack.'')"
proof -
  from assms have "snd (position_frame 0 low (get_current_frame e)) = []"
    by (intro position_frame_short) simp
  then obtain i where "position_frame 0 low (get_current_frame e) = (i, [])"
    by (cases "position_frame 0 low (get_current_frame e)") auto
  then show "stack_list_frames_window e raw_arg low high
           = fail (Error ''-stack-list-frames: Not enough frames in stack.'')"
    and "stack_list_args_window e raw_arg pv low high
           = fail (Error ''-stack-list-arguments: Not enough frames in stack.'')"
    by (simp_all add: stack_list_frames_window_def stack_list_args_window_def)
qed

text \<open>
  Claim C4.  When the low bound is at or beyond the depth of the stack, the frame listing
  and the argument listing end with the error \<^verbatim>\<open>Not enough frames in stack.\<close> and the
  built-in path does not run: no frame record is written, and the command does not return
  an empty listing.
\<close>

theorem low_beyond_depth_fails:
  assumes "int (length (get_current_frame e)) \<le> low"
  shows "raised (stack_list_frames_window e raw_arg low high)
           = Some (Error ''-stack-list-frames: Not enough frames in stack.'')
       \<and> builtin (stack_list_frames_window e raw_arg low high) = None
       \<and> raised (stack_list_args_window e raw_arg pv low high)
           = Some (Error ''-stack-list-arguments: Not enough frames in stack.'')
       \<and> builtin (stack_list_args_window e raw_arg pv low high) = None"
  using not_enough_frames [OF assms] by (simp add: fail_def)

theorem low_beyond_depth_fails_witness:
  "int (length (get_current_frame ex_env)) \<le> 3
   \<and> raised (stack_list_frames_window ex_env 0 3 5)
       = Some (Error ''-stack-list-frames: Not enough frames in stack.'')
   \<and> builtin (stack_list_frames_window ex_env 0 3 5) = None"
proof -
  have h: "int (length (get_current_frame ex_env)) \<le> 3" by (simp add: ex_env_def)
  from low_beyond_depth_fails [OF h, of 0 5 PRINT_NO_VALUES] h show ?thesis by simp
qed

text \<open>
  Claim C9.  The walk to the low bound and its check come before the call of the filter:
  with the filters enabled, no opt-out and any filter whatever, a low bound at or beyond
  the depth of the stack ends the frame listing and the argument listing with the error
  \<^verbatim>\<open>Not enough frames in stack.\<close>, and \<^verbatim>\<open>apply_frame_filter\<close> is not called.
\<close>

theorem window_checked_before_filter:
  assumes "int (length (get_current_frame e)) \<le> low"
  shows "filter_call (stack_list_frames_window
            (e\<lparr>frame_filters := True, apply_frame_filter := f\<rparr>) 0 low high) = None
       \<and> raised (stack_list_frames_window
            (e\<lparr>frame_filters := True, apply_frame_filter := f\<rparr>) 0 low high)
           = Some (Error ''-stack-list-frames: Not enough frames in stack.'')
       \<and> filter_call (stack_list_args_window
            (e\<lparr>frame_filters := True, apply_frame_filter := f\<rparr>) 0 pv low high) = None
       \<and> raised (stack_list_args_window
            (e\<lparr>frame_filters := True, apply_frame_filter := f\<rparr>) 0 pv low high)
           = Some (Error ''-stack-list-arguments: Not enough frames in stack.'')"
proof -
  let ?e = "e\<lparr>frame_filters := True, apply_frame_filter := f\<rparr>"
  from assms have "int (length (get_current_frame ?e)) \<le> low" by simp
  from not_enough_frames [OF this] show ?thesis by (simp add: fail_def)
qed

theorem window_checked_before_filter_witness:
  "int (length (get_current_frame ex_env)) \<le> 3
   \<and> filter_call (stack_list_frames_window
        (ex_env\<lparr>frame_filters := True, apply_frame_filter := (\<lambda>a. PY_BT_COMPLETED)\<rparr>) 0 3 3)
       = None
   \<and> filter_call (stack_list_frames_window
        (ex_env\<lparr>frame_filters := True, apply_frame_filter := (\<lambda>a. PY_BT_COMPLETED)\<rparr>) 0 2 2)
       \<noteq> None"
proof -
  have h: "int (length (get_current_frame ex_env)) \<le> 3" by (simp add: ex_env_def)
  have c: "filter_call (stack_list_frames_window
        (ex_env\<lparr>frame_filters := True, apply_frame_filter := (\<lambda>a. PY_BT_COMPLETED)\<rparr>) 0 2 2)
       \<noteq> None"
    by (simp add: stack_list_frames_window_def ex_env_def Let_def)
  from window_checked_before_filter [OF h, of "\<lambda>a. PY_BT_COMPLETED" 3 PRINT_NO_VALUES] h c
  show ?thesis by simp
qed

subsection \<open>The unbounded low bound\<close>

text \<open>
  Claim C8.  With the low bound \<open>-1\<close> the filter, when it is called, is passed \<open>0\<close> as its
  low bound and the high bound as it is; the built-in path, when it runs, starts at the
  innermost frame with the counter \<open>0\<close>, so it lists the whole chain up to the high bound.
  For no low bound is \<open>-1\<close> handed to the filter; every other low bound is passed unchanged.
\<close>

theorem unbounded_low_bound:
  "(\<forall>c. filter_call (stack_list_frames_window e raw_arg (- 1) high) = Some c
        \<longrightarrow> fa_frame_low c = 0 \<and> fa_frame_high c = high)
   \<and> (\<forall>out. builtin (stack_list_frames_window e raw_arg (- 1) high) = Some out
        \<longrightarrow> out = Inr (map Frame_Info
                    (if high = - 1 then get_current_frame e
                     else take (nat (high + 1)) (get_current_frame e))))
   \<and> (\<forall>c. filter_call (stack_list_args_window e raw_arg pv (- 1) high) = Some c
        \<longrightarrow> fa_frame_low c = 0 \<and> fa_frame_high c = high)
   \<and> (\<forall>recs. builtin (stack_list_args_window e raw_arg pv (- 1) high) = Some (Inr recs)
        \<longrightarrow> length recs = length (if high = - 1 then get_current_frame e
                                  else take (nat (high + 1)) (get_current_frame e))
            \<and> (\<forall>k < length recs. \<exists>out.
                  list_args_or_locals e arguments pv (get_current_frame e ! k) = Inr out
                  \<and> recs ! k = Tuple (Some ''frame'') (Field_Int ''level'' (int k) # out)))
   \<and> (\<forall>low c. filter_call (stack_list_frames_window e raw_arg low high) = Some c
        \<longrightarrow> fa_frame_low c \<noteq> - 1 \<and> (low \<noteq> - 1 \<longrightarrow> fa_frame_low c = low))
   \<and> (\<forall>low c. filter_call (stack_list_args_window e raw_arg pv low high) = Some c
        \<longrightarrow> fa_frame_low c \<noteq> - 1 \<and> (low \<noteq> - 1 \<longrightarrow> fa_frame_low c = low))"
proof -
  let ?fs = "get_current_frame e"
  have pos: "position_frame 0 (- 1) ?fs = (0, ?fs)"
    by (simp add: position_frame_eq)
  have a: "fa_frame_low c = 0 \<and> fa_frame_high c = high"
    if "filter_call (stack_list_frames_window e raw_arg (- 1) high) = Some c" for c
    using that pos
    by (auto simp: stack_list_frames_window_def fail_def Let_def split: list.splits if_splits)
  have b: "out = Inr (map Frame_Info (if high = - 1 then ?fs else take (nat (high + 1)) ?fs))"
    if "builtin (stack_list_frames_window e raw_arg (- 1) high) = Some out" for out
  proof -
    from that pos have "out = Inr (print_frames 0 high ?fs)"
      by (auto simp: stack_list_frames_window_def fail_def Let_def split: list.splits if_splits)
    then show ?thesis by (simp add: print_frames_eq)
  qed
  have c: "fa_frame_low c = 0 \<and> fa_frame_high c = high"
    if "filter_call (stack_list_args_window e raw_arg pv (- 1) high) = Some c" for c
    using that pos
    by (auto simp: stack_list_args_window_def fail_def Let_def split: list.splits if_splits)
  have d: "length recs = length (if high = - 1 then ?fs else take (nat (high + 1)) ?fs)
            \<and> (\<forall>k < length recs. \<exists>out.
                  list_args_or_locals e arguments pv (?fs ! k) = Inr out
                  \<and> recs ! k = Tuple (Some ''frame'') (Field_Int ''level'' (int k) # out))"
    if "builtin (stack_list_args_window e raw_arg pv (- 1) high) = Some (Inr recs)" for recs
  proof -
    from that pos have "list_frames_args e pv 0 high ?fs = Inr recs"
      by (auto simp: stack_list_args_window_def fail_def Let_def split: list.splits if_splits)
    from list_frames_args_eq [OF this] show ?thesis by simp
  qed
  have f: "fa_frame_low c \<noteq> - 1 \<and> (low \<noteq> - 1 \<longrightarrow> fa_frame_low c = low)"
    if "filter_call (stack_list_frames_window e raw_arg low high) = Some c" for low c
    using that
    by (auto simp: stack_list_frames_window_def fail_def Let_def
        split: prod.splits list.splits if_splits)
  have g: "fa_frame_low c \<noteq> - 1 \<and> (low \<noteq> - 1 \<longrightarrow> fa_frame_low c = low)"
    if "filter_call (stack_list_args_window e raw_arg pv low high) = Some c" for low c
    using that
    by (auto simp: stack_list_args_window_def fail_def Let_def
        split: prod.splits list.splits if_splits)
  from a b c d f g show ?thesis by blast
qed


theorem unbounded_low_bound_witness:
  "(\<exists>c. filter_call (stack_list_frames_window ex_filtering 0 (- 1) (- 1)) = Some c
        \<and> fa_frame_low c = 0 \<and> fa_frame_high c = - 1)
   \<and> builtin (stack_list_frames_window ex_filtering 0 (- 1) (- 1))
       = Some (Inr [Frame_Info (ex_frame 0), Frame_Info (ex_frame 1), Frame_Info (ex_frame 2)])"
proof -
  have c: "\<exists>c. filter_call (stack_list_frames_window ex_filtering 0 (- 1) (- 1)) = Some c"
    by (simp add: stack_list_frames_window_def ex_filtering_def ex_env_def Let_def)
  have b: "\<exists>out. builtin (stack_list_frames_window ex_filtering 0 (- 1) (- 1)) = Some out"
    by (simp add: stack_list_frames_window_def ex_filtering_def ex_env_def Let_def)
  have fs: "get_current_frame ex_filtering = [ex_frame 0, ex_frame 1, ex_frame 2]"
    by (simp add: ex_filtering_def ex_env_def)
  from unbounded_low_bound [of ex_filtering 0 "- 1" PRINT_NO_VALUES] c b fs
  show ?thesis by auto
qed

subsection \<open>The symbol classifier\<close>

text \<open>
  Claim C5.  A symbol whose class is one of \<^verbatim>\<open>LOC_UNDEF\<close>, \<^verbatim>\<open>LOC_CONST\<close>, \<^verbatim>\<open>LOC_TYPEDEF\<close>,
  \<^verbatim>\<open>LOC_LABEL\<close>, \<^verbatim>\<open>LOC_BLOCK\<close>, \<^verbatim>\<open>LOC_CONST_BYTES\<close>, \<^verbatim>\<open>LOC_UNRESOLVED\<close> and
  \<^verbatim>\<open>LOC_OPTIMIZED_OUT\<close> is never included, whatever is listed, and no record is written
  for it.  A symbol of any other class is included when all variables are listed, is
  included among the locals iff \<^verbatim>\<open>SYMBOL_IS_ARGUMENT\<close> is false and among the arguments
  iff it is true: so it is in exactly one of the two.
\<close>

theorem symbol_classifier:
  "(SYMBOL_CLASS s \<in> {LOC_UNDEF, LOC_CONST, LOC_TYPEDEF, LOC_LABEL, LOC_BLOCK,
                       LOC_CONST_BYTES, LOC_UNRESOLVED, LOC_OPTIMIZED_OUT}
      \<longrightarrow> \<not> print_me what s \<and> list_symbol e what values fi blk s = Inr [])
   \<and> (SYMBOL_CLASS s \<notin> {LOC_UNDEF, LOC_CONST, LOC_TYPEDEF, LOC_LABEL, LOC_BLOCK,
                       LOC_CONST_BYTES, LOC_UNRESOLVED, LOC_OPTIMIZED_OUT}
      \<longrightarrow> print_me all s
          \<and> (print_me locals s \<longleftrightarrow> \<not> SYMBOL_IS_ARGUMENT s)
          \<and> (print_me arguments s \<longleftrightarrow> SYMBOL_IS_ARGUMENT s)
          \<and> (print_me locals s \<longleftrightarrow> \<not> print_me arguments s))"
  by (cases "SYMBOL_CLASS s") (simp_all add: list_symbol_def print_me_def)

theorem symbol_classifier_witness:
  "SYMBOL_CLASS ex_x \<notin> {LOC_UNDEF, LOC_CONST, LOC_TYPEDEF, LOC_LABEL, LOC_BLOCK,
                       LOC_CONST_BYTES, LOC_UNRESOLVED, LOC_OPTIMIZED_OUT}
   \<and> print_me all ex_x \<and> print_me arguments ex_x \<and> \<not> print_me locals ex_x
   \<and> SYMBOL_CLASS (ex_x\<lparr>SYMBOL_CLASS := LOC_TYPEDEF\<rparr>) \<in> {LOC_UNDEF, LOC_CONST, LOC_TYPEDEF, LOC_LABEL, LOC_BLOCK,
                       LOC_CONST_BYTES, LOC_UNRESOLVED, LOC_OPTIMIZED_OUT}
   \<and> \<not> print_me all (ex_x\<lparr>SYMBOL_CLASS := LOC_TYPEDEF\<rparr>)"
  using symbol_classifier [of ex_x arguments ex_env PRINT_NO_VALUES "ex_frame 0" ex_block]
    symbol_classifier [of "ex_x\<lparr>SYMBOL_CLASS := LOC_TYPEDEF\<rparr>" all ex_env PRINT_NO_VALUES "ex_frame 0" ex_block]
  by (simp add: ex_x_def print_me_def)


subsection \<open>The records of one variable\<close>

lemma value_text_error:
  "error arg = Some msg \<Longrightarrow> value_text e arg = ''<error reading variable: '' @ msg @ ''>''"
  by (simp add: value_text_def)

text \<open>
  The other way a value can fail: \<^verbatim>\<open>common_val_print\<close> throws inside \<^verbatim>\<open>TRY_CATCH\<close>.  The
  marker then follows what was written before the error.
\<close>

lemma value_text_print_error:
  "error arg = None \<Longrightarrow> val arg = Some v
   \<Longrightarrow> common_val_print e v (SYMBOL_LANGUAGE (sym arg)) = (written, Some msg)
   \<Longrightarrow> value_text e arg = written @ ''<error reading variable: '' @ msg @ ''>''"
  by (simp add: value_text_def)

lemma list_arg_or_local_fails:
  "\<not> asserts_hold values arg \<Longrightarrow> \<exists>m. list_arg_or_local e arg what values = Inl (Internal_Error m)"
  by (auto simp: asserts_hold_def list_arg_or_local_def)

lemma list_arg_or_local_record:
  assumes "asserts_hold values arg"
  shows "\<exists>r. list_arg_or_local e arg what values = Inr [r]
     \<and> field_of ''name'' r
         = Some (SYMBOL_PRINT_NAME (sym arg)
                 @ (if entry_kind arg = print_entry_values_only then ''@entry'' else []))
     \<and> field_of ''type'' r
         = (if values = PRINT_SIMPLE_VALUES then Some (type_print e (symbol_type (sym arg)))
            else None)
     \<and> field_of ''value'' r
         = (if val arg \<noteq> None \<or> error arg \<noteq> None then Some (value_text e arg) else None)"
proof -
  from assms have eq: "list_arg_or_local e arg what values =
      Inr (if values \<noteq> PRINT_NO_VALUES \<or> what = all
                then [Tuple None (arg_fields e arg what values)]
                else arg_fields e arg what values)"
    unfolding asserts_hold_def list_arg_or_local_def
    by (simp only: if_False not_not if_True not_True_eq_False)
  show ?thesis
  proof (cases "values \<noteq> PRINT_NO_VALUES \<or> what = all")
    case True
    with eq have "list_arg_or_local e arg what values = Inr [Tuple None (arg_fields e arg what values)]"
      by simp
    moreover have "field_of ''name'' (Tuple None (arg_fields e arg what values))
         = Some (SYMBOL_PRINT_NAME (sym arg)
                 @ (if entry_kind arg = print_entry_values_only then ''@entry'' else []))"
      by (simp add: field_of_def arg_fields_def)
    moreover have "field_of ''type'' (Tuple None (arg_fields e arg what values))
         = (if values = PRINT_SIMPLE_VALUES then Some (type_print e (symbol_type (sym arg)))
            else None)"
      by (simp add: field_of_def arg_fields_def)
    moreover have "field_of ''value'' (Tuple None (arg_fields e arg what values))
         = (if val arg \<noteq> None \<or> error arg \<noteq> None then Some (value_text e arg) else None)"
      by (simp add: field_of_def arg_fields_def)
    ultimately show ?thesis by blast
  next
    case False
    with assms have nv: "val arg = None" "error arg = None" "values = PRINT_NO_VALUES" "what \<noteq> all"
      by (auto simp: asserts_hold_def)
    let ?r = "Field_Stream ''name''
        (SYMBOL_PRINT_NAME (sym arg)
         @ (if entry_kind arg = print_entry_values_only then ''@entry'' else []))"
    from nv have "arg_fields e arg what values = [?r]"
      by (simp add: arg_fields_def)
    with eq False have "list_arg_or_local e arg what values = Inr [?r]" by simp
    moreover have "field_of ''name'' ?r = Some (SYMBOL_PRINT_NAME (sym arg)
                 @ (if entry_kind arg = print_entry_values_only then ''@entry'' else []))"
      by (simp add: field_of_def)
    moreover from nv have "field_of ''type'' ?r
         = (if values = PRINT_SIMPLE_VALUES then Some (type_print e (symbol_type (sym arg)))
            else None)"
      by (simp add: field_of_def)
    moreover from nv have "field_of ''value'' ?r
         = (if val arg \<noteq> None \<or> error arg \<noteq> None then Some (value_text e arg) else None)"
      by (simp add: field_of_def)
    ultimately show ?thesis by blast
  qed
qed

lemma fetch_args_sym:
  "fetch_args e values sym2 fi = (arg, entryarg) \<Longrightarrow> sym arg = sym2 \<and> sym entryarg = sym2"
  by (auto simp: fetch_args_def zeroed_arg_def filled_arg_def Let_def
      split: print_values.splits if_splits prod.splits)

lemma list_symbol_unfold:
  assumes "print_me what s" and "resolve_sym2 e blk s = Some sym2"
    and "fetch_args e values sym2 fi = (arg, entryarg)"
  shows "list_symbol e what values fi blk s =
     (case (if entry_kind arg \<noteq> print_entry_values_only
            then list_arg_or_local e arg what values else Inr []) of
        Inl err \<Rightarrow> Inl err
      | Inr out1 \<Rightarrow>
          (case (if entry_kind entryarg \<noteq> print_entry_values_no
                 then list_arg_or_local e entryarg what values else Inr []) of
             Inl err \<Rightarrow> Inl err
           | Inr out2 \<Rightarrow> Inr (out1 @ out2)))"
  using assms by (simp add: list_symbol_def)

text \<open>The records of one symbol whose emitted requests pass the assertions.\<close>

lemma list_symbol_records:
  assumes "print_me what s" and "resolve_sym2 e blk s = Some sym2"
    and "fetch_args e values sym2 fi = (arg, entryarg)"
    and "entry_kind arg \<noteq> print_entry_values_only \<longrightarrow> asserts_hold values arg"
    and "entry_kind entryarg \<noteq> print_entry_values_no \<longrightarrow> asserts_hold values entryarg"
  shows "\<exists>rn re. list_symbol e what values fi blk s = Inr (rn @ re)
     \<and> (if entry_kind arg \<noteq> print_entry_values_only
        then \<exists>r. rn = [r]
           \<and> field_of ''name'' r = Some (SYMBOL_PRINT_NAME sym2)
           \<and> field_of ''type'' r
               = (if values = PRINT_SIMPLE_VALUES then Some (type_print e (symbol_type sym2))
                  else None)
           \<and> field_of ''value'' r
               = (if val arg \<noteq> None \<or> error arg \<noteq> None then Some (value_text e arg) else None)
        else rn = [])
     \<and> (if entry_kind entryarg \<noteq> print_entry_values_no
        then \<exists>r. re = [r]
           \<and> field_of ''name'' r = Some (SYMBOL_PRINT_NAME sym2 @ ''@entry'')
           \<and> field_of ''type'' r
               = (if values = PRINT_SIMPLE_VALUES then Some (type_print e (symbol_type sym2))
                  else None)
           \<and> field_of ''value'' r = Some (value_text e entryarg)
        else re = [])"
proof -
  note unfold = list_symbol_unfold [OF assms(1,2,3)]
  from fetch_args_sym [OF assms(3)] have syms: "sym arg = sym2" "sym entryarg = sym2" by simp_all
  have n: "\<exists>rn. (if entry_kind arg \<noteq> print_entry_values_only
            then list_arg_or_local e arg what values else Inr []) = Inr rn
     \<and> (if entry_kind arg \<noteq> print_entry_values_only
        then \<exists>r. rn = [r]
           \<and> field_of ''name'' r = Some (SYMBOL_PRINT_NAME sym2)
           \<and> field_of ''type'' r
               = (if values = PRINT_SIMPLE_VALUES then Some (type_print e (symbol_type sym2))
                  else None)
           \<and> field_of ''value'' r
               = (if val arg \<noteq> None \<or> error arg \<noteq> None then Some (value_text e arg) else None)
        else rn = [])"
  proof (cases "entry_kind arg \<noteq> print_entry_values_only")
    case True
    with assms(4) have ok: "asserts_hold values arg" by simp
    then have "entry_kind arg = print_entry_values_no" using True
      by (auto simp: asserts_hold_def)
    with list_arg_or_local_record [OF ok, of e what] syms True show ?thesis
      by auto
  next
    case False
    then show ?thesis by simp
  qed
  have en: "\<exists>re. (if entry_kind entryarg \<noteq> print_entry_values_no
                 then list_arg_or_local e entryarg what values else Inr []) = Inr re
     \<and> (if entry_kind entryarg \<noteq> print_entry_values_no
        then \<exists>r. re = [r]
           \<and> field_of ''name'' r = Some (SYMBOL_PRINT_NAME sym2 @ ''@entry'')
           \<and> field_of ''type'' r
               = (if values = PRINT_SIMPLE_VALUES then Some (type_print e (symbol_type sym2))
                  else None)
           \<and> field_of ''value'' r = Some (value_text e entryarg)
        else re = [])"
  proof (cases "entry_kind entryarg \<noteq> print_entry_values_no")
    case True
    with assms(5) have ok: "asserts_hold values entryarg" by simp
    then have "entry_kind entryarg = print_entry_values_only"
      and "val entryarg \<noteq> None \<or> error entryarg \<noteq> None" using True
      by (auto simp: asserts_hold_def)
    with list_arg_or_local_record [OF ok, of e what] syms True show ?thesis
      by auto
  next
    case False
    then show ?thesis by simp
  qed
  from n obtain rn where rn: "(if entry_kind arg \<noteq> print_entry_values_only
            then list_arg_or_local e arg what values else Inr []) = Inr rn"
    and rnp: "(if entry_kind arg \<noteq> print_entry_values_only
        then \<exists>r. rn = [r]
           \<and> field_of ''name'' r = Some (SYMBOL_PRINT_NAME sym2)
           \<and> field_of ''type'' r
               = (if values = PRINT_SIMPLE_VALUES then Some (type_print e (symbol_type sym2))
                  else None)
           \<and> field_of ''value'' r
               = (if val arg \<noteq> None \<or> error arg \<noteq> None then Some (value_text e arg) else None)
        else rn = [])" by blast
  from en obtain re where re: "(if entry_kind entryarg \<noteq> print_entry_values_no
                 then list_arg_or_local e entryarg what values else Inr []) = Inr re"
    and rep: "(if entry_kind entryarg \<noteq> print_entry_values_no
        then \<exists>r. re = [r]
           \<and> field_of ''name'' r = Some (SYMBOL_PRINT_NAME sym2 @ ''@entry'')
           \<and> field_of ''type'' r
               = (if values = PRINT_SIMPLE_VALUES then Some (type_print e (symbol_type sym2))
                  else None)
           \<and> field_of ''value'' r = Some (value_text e entryarg)
        else re = [])" by blast
  from unfold rn re have "list_symbol e what values fi blk s = Inr (rn @ re)"
    by (simp only: sum.case)
  with rnp rep show ?thesis by blast
qed


lemma list_symbol_aborts:
  assumes "print_me what s" and "resolve_sym2 e blk s = Some sym2"
    and "fetch_args e values sym2 fi = (arg, entryarg)"
    and "\<not> ((entry_kind arg \<noteq> print_entry_values_only \<longrightarrow> asserts_hold values arg)
          \<and> (entry_kind entryarg \<noteq> print_entry_values_no \<longrightarrow> asserts_hold values entryarg))"
  shows "\<exists>m. list_symbol e what values fi blk s = Inl (Internal_Error m)"
proof -
  note unfold = list_symbol_unfold [OF assms(1,2,3)]
  show ?thesis
  proof (cases "entry_kind arg \<noteq> print_entry_values_only \<and> \<not> asserts_hold values arg")
    case True
    with list_arg_or_local_fails [of "values" arg e what] unfold show ?thesis by auto
  next
    case False
    with assms(4) have en: "entry_kind entryarg \<noteq> print_entry_values_no"
      and bad: "\<not> asserts_hold values entryarg" by auto
    from list_arg_or_local_fails [OF bad, of e what] obtain m where
      m: "list_arg_or_local e entryarg what values = Inl (Internal_Error m)" by blast
    show ?thesis
    proof (cases "entry_kind arg \<noteq> print_entry_values_only")
      case True
      with False have "asserts_hold values arg" by simp
      from list_arg_or_local_record [OF this, of e what] obtain r where
        "list_arg_or_local e arg what values = Inr [r]" by blast
      with unfold True en m show ?thesis by simp
    next
      case False
      with unfold en m show ?thesis by simp
    qed
  qed
qed

text \<open>
  Claim C7.  For a variable that is listed, with \<open>arg\<close> and \<open>entryarg\<close> the two requests
  after the fetch step: when the requests that are emitted pass the assertions of
  \<^verbatim>\<open>list_arg_or_local\<close>, the records written are the one of the normal request, unless
  its entry kind is \<^verbatim>\<open>print_entry_values_only\<close>, followed by the one of the entry request,
  whenever its entry kind is not \<^verbatim>\<open>print_entry_values_no\<close>.  The first is named as the
  symbol, the second has the name with the suffix \<^verbatim>\<open>@entry\<close>.  So the variable gets one
  record, the other, or both.  When an emitted request fails an assertion, the listing
  ends with an internal error.
\<close>

theorem entry_kind_decides_records:
  assumes "print_me what s" and "resolve_sym2 e blk s = Some sym2"
    and "fetch_args e values sym2 fi = (arg, entryarg)"
  shows "((entry_kind arg \<noteq> print_entry_values_only \<longrightarrow> asserts_hold values arg)
          \<and> (entry_kind entryarg \<noteq> print_entry_values_no \<longrightarrow> asserts_hold values entryarg)
         \<longrightarrow> (\<exists>recs. list_symbol e what values fi blk s = Inr recs
               \<and> map (field_of ''name'') recs =
                   (if entry_kind arg \<noteq> print_entry_values_only
                    then [Some (SYMBOL_PRINT_NAME sym2)] else [])
                   @ (if entry_kind entryarg \<noteq> print_entry_values_no
                      then [Some (SYMBOL_PRINT_NAME sym2 @ ''@entry'')] else [])))
       \<and> (\<not> ((entry_kind arg \<noteq> print_entry_values_only \<longrightarrow> asserts_hold values arg)
          \<and> (entry_kind entryarg \<noteq> print_entry_values_no \<longrightarrow> asserts_hold values entryarg))
         \<longrightarrow> (\<exists>m. list_symbol e what values fi blk s = Inl (Internal_Error m)))"
proof (intro conjI impI)
  assume ok: "(entry_kind arg \<noteq> print_entry_values_only \<longrightarrow> asserts_hold values arg)
          \<and> (entry_kind entryarg \<noteq> print_entry_values_no \<longrightarrow> asserts_hold values entryarg)"
  then have a: "entry_kind arg \<noteq> print_entry_values_only \<longrightarrow> asserts_hold values arg"
    and b: "entry_kind entryarg \<noteq> print_entry_values_no \<longrightarrow> asserts_hold values entryarg"
    by simp_all
  from list_symbol_records [OF assms a b] obtain rn re where
    eq: "list_symbol e what values fi blk s = Inr (rn @ re)"
    and rn': "if entry_kind arg \<noteq> print_entry_values_only
        then \<exists>r. rn = [r]
           \<and> field_of ''name'' r = Some (SYMBOL_PRINT_NAME sym2)
           \<and> field_of ''type'' r
               = (if values = PRINT_SIMPLE_VALUES then Some (type_print e (symbol_type sym2))
                  else None)
           \<and> field_of ''value'' r
               = (if val arg \<noteq> None \<or> error arg \<noteq> None then Some (value_text e arg) else None)
        else rn = []"
    and re': "if entry_kind entryarg \<noteq> print_entry_values_no
        then \<exists>r. re = [r]
           \<and> field_of ''name'' r = Some (SYMBOL_PRINT_NAME sym2 @ ''@entry'')
           \<and> field_of ''type'' r
               = (if values = PRINT_SIMPLE_VALUES then Some (type_print e (symbol_type sym2))
                  else None)
           \<and> field_of ''value'' r = Some (value_text e entryarg)
        else re = []"
    by blast
  from rn' have rn: "if entry_kind arg \<noteq> print_entry_values_only
        then \<exists>r. rn = [r] \<and> field_of ''name'' r = Some (SYMBOL_PRINT_NAME sym2)
        else rn = []"
    by (auto split: if_splits)
  from re' have re: "if entry_kind entryarg \<noteq> print_entry_values_no
        then \<exists>r. re = [r] \<and> field_of ''name'' r = Some (SYMBOL_PRINT_NAME sym2 @ ''@entry'')
        else re = []"
    by (auto split: if_splits)
  from rn have "map (field_of ''name'') rn =
      (if entry_kind arg \<noteq> print_entry_values_only then [Some (SYMBOL_PRINT_NAME sym2)] else [])"
    by (auto split: if_splits)
  moreover from re have "map (field_of ''name'') re =
      (if entry_kind entryarg \<noteq> print_entry_values_no
       then [Some (SYMBOL_PRINT_NAME sym2 @ ''@entry'')] else [])"
    by (auto split: if_splits)
  ultimately have "map (field_of ''name'') (rn @ re) =
                   (if entry_kind arg \<noteq> print_entry_values_only
                    then [Some (SYMBOL_PRINT_NAME sym2)] else [])
                   @ (if entry_kind entryarg \<noteq> print_entry_values_no
                      then [Some (SYMBOL_PRINT_NAME sym2 @ ''@entry'')] else [])"
    by (simp only: map_append)
  with eq show "\<exists>recs. list_symbol e what values fi blk s = Inr recs
               \<and> map (field_of ''name'') recs =
                   (if entry_kind arg \<noteq> print_entry_values_only
                    then [Some (SYMBOL_PRINT_NAME sym2)] else [])
                   @ (if entry_kind entryarg \<noteq> print_entry_values_no
                      then [Some (SYMBOL_PRINT_NAME sym2 @ ''@entry'')] else [])"
    by blast
next
  assume "\<not> ((entry_kind arg \<noteq> print_entry_values_only \<longrightarrow> asserts_hold values arg)
          \<and> (entry_kind entryarg \<noteq> print_entry_values_no \<longrightarrow> asserts_hold values entryarg))"
  from list_symbol_aborts [OF assms this]
  show "\<exists>m. list_symbol e what values fi blk s = Inl (Internal_Error m)" .
qed

lemma ex_x_fetch:
  "fetch_args ex_env PRINT_ALL_VALUES ex_x (ex_frame 0) =
     (\<lparr>sym = ex_x, val = None, error = Some ''Cannot access memory at address 0x10'',
       entry_kind = print_entry_values_no\<rparr>,
      \<lparr>sym = ex_x, val = None, error = Some ''Cannot access memory at address 0x10'',
       entry_kind = print_entry_values_only\<rparr>)"
  by (simp add: fetch_args_def ex_env_def ex_fetch_def filled_arg_def ex_x_def)

lemma ex_x_resolved: "resolve_sym2 ex_env ex_block ex_x = Some ex_x"
  by (simp add: resolve_sym2_def ex_env_def ex_block_def ex_x_def)

lemma ex_x_print_me: "print_me arguments ex_x"
  by (simp add: ex_x_def print_me_def)

theorem entry_kind_decides_records_witness:
  "print_me arguments ex_x \<and> resolve_sym2 ex_env ex_block ex_x = Some ex_x
   \<and> (\<exists>recs. list_symbol ex_env arguments PRINT_ALL_VALUES (ex_frame 0) ex_block ex_x = Inr recs
          \<and> map (field_of ''name'') recs = [Some ''x'', Some ''x@entry''])"
  using entry_kind_decides_records [OF ex_x_print_me ex_x_resolved ex_x_fetch]
    ex_x_print_me ex_x_resolved
  by (simp add: asserts_hold_def ex_x_def)


lemma value_text_fetch_free:
  "value_text (e\<lparr>read_frame_arg := f\<rparr>) arg = value_text e arg"
  by (simp add: value_text_def split: option.splits prod.splits)

lemma list_arg_or_local_fetch_free:
  "list_arg_or_local (e\<lparr>read_frame_arg := f\<rparr>) arg what values
     = list_arg_or_local e arg what values"
proof -
  have "arg_fields (e\<lparr>read_frame_arg := f\<rparr>) arg what values = arg_fields e arg what values"
    by (simp add: arg_fields_def value_text_fetch_free)
  then show ?thesis
    by (simp only: list_arg_or_local_def)
qed

lemma fetch_args_simple_aggregate:
  assumes "TYPE_CODE (check_typedef e (symbol_type sym2))
             \<in> {TYPE_CODE_ARRAY, TYPE_CODE_STRUCT, TYPE_CODE_UNION}"
  shows "fetch_args e PRINT_SIMPLE_VALUES sym2 fi = (zeroed_arg sym2, zeroed_arg sym2)"
  using assms by (auto simp: fetch_args_def Let_def)

lemma fetch_args_simple_scalar:
  assumes "TYPE_CODE (check_typedef e (symbol_type sym2))
             \<notin> {TYPE_CODE_ARRAY, TYPE_CODE_STRUCT, TYPE_CODE_UNION}"
  shows "fetch_args e PRINT_SIMPLE_VALUES sym2 fi
           = (filled_arg sym2 (fst (read_frame_arg e sym2 fi)),
              filled_arg sym2 (snd (read_frame_arg e sym2 fi)))"
  using assms by (auto simp: fetch_args_def Let_def split: prod.splits)

text \<open>
  Claim C6.  Under \<^verbatim>\<open>PRINT_SIMPLE_VALUES\<close>, for a variable that is listed and whose symbol
  resolves to \<open>sym2\<close>.  If the type of \<open>sym2\<close>, after \<^verbatim>\<open>check_typedef\<close>, is an array, a
  struct or a union, exactly one record is written, with the type of \<open>sym2\<close> as text and
  no value field, and nothing is fetched: the result is the same whatever
  \<^verbatim>\<open>read_frame_arg\<close> is.  Otherwise the two requests are what \<^verbatim>\<open>read_frame_arg\<close> returned,
  every record written has the type field, and every record has a value field, with the
  text of the value or of the error of one of the two requests, provided the fetch gave
  the normal request a value or an error unless it suppressed it.
\<close>

theorem simple_values_records:
  assumes "print_me what s" and "resolve_sym2 e blk s = Some sym2"
  shows "(TYPE_CODE (check_typedef e (symbol_type sym2))
             \<in> {TYPE_CODE_ARRAY, TYPE_CODE_STRUCT, TYPE_CODE_UNION} \<longrightarrow>
           (\<exists>r. list_symbol e what PRINT_SIMPLE_VALUES fi blk s = Inr [r]
               \<and> field_of ''type'' r = Some (type_print e (symbol_type sym2))
               \<and> field_of ''value'' r = None)
           \<and> (\<forall>f. list_symbol (e\<lparr>read_frame_arg := f\<rparr>) what PRINT_SIMPLE_VALUES fi blk s
                    = list_symbol e what PRINT_SIMPLE_VALUES fi blk s))
       \<and> (TYPE_CODE (check_typedef e (symbol_type sym2))
             \<notin> {TYPE_CODE_ARRAY, TYPE_CODE_STRUCT, TYPE_CODE_UNION} \<longrightarrow>
           (\<forall>arg entryarg recs.
               arg = filled_arg sym2 (fst (read_frame_arg e sym2 fi))
               \<and> entryarg = filled_arg sym2 (snd (read_frame_arg e sym2 fi))
               \<and> list_symbol e what PRINT_SIMPLE_VALUES fi blk s = Inr recs
               \<longrightarrow> fetch_args e PRINT_SIMPLE_VALUES sym2 fi = (arg, entryarg)
                 \<and> (\<forall>r \<in> set recs.
                       field_of ''type'' r = Some (type_print e (symbol_type sym2)))
                 \<and> ((entry_kind arg \<noteq> print_entry_values_only
                       \<longrightarrow> val arg \<noteq> None \<or> error arg \<noteq> None)
                     \<longrightarrow> (\<forall>r \<in> set recs.
                           field_of ''value'' r = Some (value_text e arg)
                           \<or> field_of ''value'' r = Some (value_text e entryarg)))))"
proof (intro conjI impI allI)
  assume agg: "TYPE_CODE (check_typedef e (symbol_type sym2))
             \<in> {TYPE_CODE_ARRAY, TYPE_CODE_STRUCT, TYPE_CODE_UNION}"
  note fa = fetch_args_simple_aggregate [OF agg, of fi]
  have ok: "asserts_hold PRINT_SIMPLE_VALUES (zeroed_arg sym2)"
    by (simp add: asserts_hold_def zeroed_arg_def)
  have k: "entry_kind (zeroed_arg sym2) = print_entry_values_no"
    and v: "val (zeroed_arg sym2) = None" "error (zeroed_arg sym2) = None"
    by (simp_all add: zeroed_arg_def)
  from list_symbol_records [OF assms fa] ok k v
  show "\<exists>r. list_symbol e what PRINT_SIMPLE_VALUES fi blk s = Inr [r]
               \<and> field_of ''type'' r = Some (type_print e (symbol_type sym2))
               \<and> field_of ''value'' r = None"
    by auto
next
  fix f
  assume agg: "TYPE_CODE (check_typedef e (symbol_type sym2))
             \<in> {TYPE_CODE_ARRAY, TYPE_CODE_STRUCT, TYPE_CODE_UNION}"
  let ?e = "e\<lparr>read_frame_arg := f\<rparr>"
  from agg have agg': "TYPE_CODE (check_typedef ?e (symbol_type sym2))
             \<in> {TYPE_CODE_ARRAY, TYPE_CODE_STRUCT, TYPE_CODE_UNION}" by simp
  from assms(2) have rs': "resolve_sym2 ?e blk s = Some sym2"
    by (auto simp: resolve_sym2_def split: if_splits)
  from list_symbol_unfold [OF assms fetch_args_simple_aggregate [OF agg, of fi]]
    list_symbol_unfold [OF assms(1) rs' fetch_args_simple_aggregate [OF agg', of fi]]
  show "list_symbol ?e what PRINT_SIMPLE_VALUES fi blk s
          = list_symbol e what PRINT_SIMPLE_VALUES fi blk s"
    by (simp only: list_arg_or_local_fetch_free)
next
  fix arg entryarg recs
  assume sc: "TYPE_CODE (check_typedef e (symbol_type sym2))
             \<notin> {TYPE_CODE_ARRAY, TYPE_CODE_STRUCT, TYPE_CODE_UNION}"
  assume h: "arg = filled_arg sym2 (fst (read_frame_arg e sym2 fi))
               \<and> entryarg = filled_arg sym2 (snd (read_frame_arg e sym2 fi))
               \<and> list_symbol e what PRINT_SIMPLE_VALUES fi blk s = Inr recs"
  from fetch_args_simple_scalar [OF sc, of fi] h
  show fa: "fetch_args e PRINT_SIMPLE_VALUES sym2 fi = (arg, entryarg)" by simp
  have ok: "(entry_kind arg \<noteq> print_entry_values_only \<longrightarrow> asserts_hold PRINT_SIMPLE_VALUES arg)
          \<and> (entry_kind entryarg \<noteq> print_entry_values_no
               \<longrightarrow> asserts_hold PRINT_SIMPLE_VALUES entryarg)"
  proof (rule ccontr)
    assume "\<not> ?thesis"
    from list_symbol_aborts [OF assms fa this] h show False by auto
  qed
  then have a: "entry_kind arg \<noteq> print_entry_values_only \<longrightarrow> asserts_hold PRINT_SIMPLE_VALUES arg"
    and b: "entry_kind entryarg \<noteq> print_entry_values_no
               \<longrightarrow> asserts_hold PRINT_SIMPLE_VALUES entryarg" by simp_all
  from list_symbol_records [OF assms fa a b] h obtain rn re where
    eq: "recs = rn @ re"
    and rn: "if entry_kind arg \<noteq> print_entry_values_only
        then \<exists>r. rn = [r]
           \<and> field_of ''name'' r = Some (SYMBOL_PRINT_NAME sym2)
           \<and> field_of ''type'' r
               = (if PRINT_SIMPLE_VALUES = PRINT_SIMPLE_VALUES
                  then Some (type_print e (symbol_type sym2)) else None)
           \<and> field_of ''value'' r
               = (if val arg \<noteq> None \<or> error arg \<noteq> None then Some (value_text e arg) else None)
        else rn = []"
    and re: "if entry_kind entryarg \<noteq> print_entry_values_no
        then \<exists>r. re = [r]
           \<and> field_of ''name'' r = Some (SYMBOL_PRINT_NAME sym2 @ ''@entry'')
           \<and> field_of ''type'' r
               = (if PRINT_SIMPLE_VALUES = PRINT_SIMPLE_VALUES
                  then Some (type_print e (symbol_type sym2)) else None)
           \<and> field_of ''value'' r = Some (value_text e entryarg)
        else re = []"
    by auto
  from rn have rnt: "\<forall>r \<in> set rn. field_of ''type'' r = Some (type_print e (symbol_type sym2))"
    by (auto split: if_splits)
  from re have ret: "\<forall>r \<in> set re. field_of ''type'' r = Some (type_print e (symbol_type sym2))"
    by (auto split: if_splits)
  from rnt ret eq
  show "\<forall>r \<in> set recs. field_of ''type'' r = Some (type_print e (symbol_type sym2))"
    by auto
  assume c: "entry_kind arg \<noteq> print_entry_values_only
                       \<longrightarrow> val arg \<noteq> None \<or> error arg \<noteq> None"
  from rn c have rnv: "\<forall>r \<in> set rn. field_of ''value'' r = Some (value_text e arg)"
    by (auto split: if_splits)
  from re have rev: "\<forall>r \<in> set re. field_of ''value'' r = Some (value_text e entryarg)"
    by (auto split: if_splits)
  from rnv rev eq
  show "\<forall>r \<in> set recs. field_of ''value'' r = Some (value_text e arg)
                           \<or> field_of ''value'' r = Some (value_text e entryarg)"
    by auto
qed

lemma ex_s_facts:
  "print_me all ex_s" "resolve_sym2 ex_env ex_block ex_s = Some ex_s"
  "TYPE_CODE (check_typedef ex_env (symbol_type ex_s))
     \<in> {TYPE_CODE_ARRAY, TYPE_CODE_STRUCT, TYPE_CODE_UNION}"
  by (simp_all add: ex_s_def resolve_sym2_def ex_env_def ex_struct_def print_me_def)

lemma ex_n_facts:
  "print_me all ex_n" "resolve_sym2 ex_env ex_block ex_n = Some ex_n"
  "TYPE_CODE (check_typedef ex_env (symbol_type ex_n))
     \<notin> {TYPE_CODE_ARRAY, TYPE_CODE_STRUCT, TYPE_CODE_UNION}"
  "list_symbol ex_env all PRINT_SIMPLE_VALUES (ex_frame 0) ex_block ex_n
     = Inr [Tuple None [Field_Stream ''name'' ''n'', Field_Stream ''type'' ''int'',
                        Field_Stream ''value'' ''7'']]"
  by (simp_all add: ex_n_def resolve_sym2_def ex_env_def ex_int_def list_symbol_def print_me_def
      fetch_args_def ex_fetch_def filled_arg_def list_arg_or_local_def arg_fields_def
      value_text_def Let_def)

theorem simple_values_records_witness:
  "print_me all ex_s \<and> resolve_sym2 ex_env ex_block ex_s = Some ex_s
   \<and> TYPE_CODE (check_typedef ex_env (symbol_type ex_s))
       \<in> {TYPE_CODE_ARRAY, TYPE_CODE_STRUCT, TYPE_CODE_UNION}
   \<and> (\<exists>r. list_symbol ex_env all PRINT_SIMPLE_VALUES (ex_frame 0) ex_block ex_s = Inr [r]
          \<and> field_of ''type'' r = Some ''struct pt'' \<and> field_of ''value'' r = None)
   \<and> print_me all ex_n \<and> resolve_sym2 ex_env ex_block ex_n = Some ex_n
   \<and> TYPE_CODE (check_typedef ex_env (symbol_type ex_n))
       \<notin> {TYPE_CODE_ARRAY, TYPE_CODE_STRUCT, TYPE_CODE_UNION}
   \<and> (\<exists>r. list_symbol ex_env all PRINT_SIMPLE_VALUES (ex_frame 0) ex_block ex_n = Inr [r]
          \<and> field_of ''type'' r = Some ''int'' \<and> field_of ''value'' r = Some ''7'')"
proof -
  from simple_values_records [OF ex_s_facts(1,2), of "ex_frame 0"] ex_s_facts(3)
  have "\<exists>r. list_symbol ex_env all PRINT_SIMPLE_VALUES (ex_frame 0) ex_block ex_s = Inr [r]
          \<and> field_of ''type'' r = Some ''struct pt'' \<and> field_of ''value'' r = None"
    by (simp add: ex_env_def ex_s_def ex_struct_def)
  moreover
  from simple_values_records [OF ex_n_facts(1,2), of "ex_frame 0"] ex_n_facts(3,4)
  have "\<exists>r. list_symbol ex_env all PRINT_SIMPLE_VALUES (ex_frame 0) ex_block ex_n = Inr [r]
          \<and> field_of ''type'' r = Some ''int'' \<and> field_of ''value'' r = Some ''7''"
    by (simp add: field_of_def)
  ultimately show ?thesis using ex_s_facts ex_n_facts(1,2,3) by blast
qed


text \<open>
  A request that came back with an error and no value passes the three assertions, when
  values are asked for and its entry kind is one of the two the file knows.
\<close>

lemma failed_request_passes_asserts:
  assumes "error arg = Some msg" and "val arg = None"
    and "values \<noteq> PRINT_NO_VALUES" and "entry_kind arg \<noteq> print_entry_values_other"
  shows "asserts_hold values arg"
proof -
  from assms(3) have "values = PRINT_SIMPLE_VALUES \<or> values = PRINT_ALL_VALUES"
    by (cases "values") simp_all
  moreover from assms(4) have
    "entry_kind arg = print_entry_values_no \<or> entry_kind arg = print_entry_values_only"
    by (cases "entry_kind arg") simp_all
  ultimately show ?thesis using assms(1,2)
    by (auto simp: asserts_hold_def)
qed

text \<open>
  Claim C1, as stated, fails: the fetch of the argument \<open>x\<close> fails at its normal location
  and at its entry location, and two records are written for \<open>x\<close>, each with the error
  as its value, not exactly one.
\<close>

theorem failed_fetch_two_records:
  "print_me arguments ex_x
   \<and> fetched_error (fst (read_frame_arg ex_env ex_x (ex_frame 0)))
       = Some ''Cannot access memory at address 0x10''
   \<and> list_symbol ex_env arguments PRINT_ALL_VALUES (ex_frame 0) ex_block ex_x =
       Inr [Tuple None
              [Field_Stream ''name'' ''x'',
               Field_Stream ''value''
                 ''<error reading variable: Cannot access memory at address 0x10>''],
            Tuple None
              [Field_Stream ''name'' ''x@entry'',
               Field_Stream ''value''
                 ''<error reading variable: Cannot access memory at address 0x10>'']]"
  by (simp add: ex_x_def resolve_sym2_def ex_env_def ex_block_def list_symbol_def print_me_def
      fetch_args_def ex_fetch_def filled_arg_def list_arg_or_local_def arg_fields_def
      value_text_def Let_def)

text \<open>
  The listing of a frame is the listing of the symbols of its walk, one after the other,
  and the listing of a run of frames inside the window is the listing of its frames, one
  after the other.
\<close>

lemma collect_append:
  "collect (xs @ ys) =
     (case collect xs of
        Inl err \<Rightarrow> Inl err
      | Inr out1 \<Rightarrow>
          (case collect ys of
             Inl err \<Rightarrow> Inl err
           | Inr out2 \<Rightarrow> Inr (out1 @ out2)))"
  by (induction xs) (auto split: sum.splits)

lemma list_block_symbols_collect:
  "list_block_symbols e what values fi blk ss
     = collect (map (list_symbol e what values fi blk) ss)"
  by (induction ss) (auto split: sum.splits)

lemma collect_pairs:
  "collect (map ((\<lambda>(b, s'). list_symbol e what values fi b s') \<circ> Pair blk) ss)
     = list_block_symbols e what values fi blk ss"
  by (simp add: list_block_symbols_collect comp_def)

lemma list_blocks_collect:
  "list_blocks e what values fi b
     = collect (map (\<lambda>(b, s'). list_symbol e what values fi b s')
         (concat (map (\<lambda>blk. map (Pair blk) (block_symbols blk)) (walked_blocks b))))"
proof (induction b)
  case (Block syms is_function super)
  show ?case
  proof (cases "is_function \<or> super = None")
    case True
    then show ?thesis
      by (auto simp: collect_pairs split: sum.splits)
  next
    case False
    then obtain b' where s: "super = Some b'" and nf: "\<not> is_function" by auto
    with Block.IH have ih: "list_blocks e what values fi b'
     = collect (map (\<lambda>(b, s'). list_symbol e what values fi b s')
         (concat (map (\<lambda>blk. map (Pair blk) (block_symbols blk)) (walked_blocks b'))))"
      by simp
    from s nf show ?thesis
      by (simp add: collect_append collect_pairs ih split: sum.splits)
  qed
qed

lemma list_args_or_locals_collect:
  "list_args_or_locals e what values fi =
     (case collect (map (\<lambda>(b, s'). list_symbol e what values fi b s') (frame_symbols fi)) of
        Inl err \<Rightarrow> Inl err
      | Inr out \<Rightarrow> Inr [UList (name_of_result what) out])"
  by (simp add: list_args_or_locals_def frame_symbols_def list_blocks_collect
      split: option.splits)

lemma list_frames_args_append:
  assumes "i + int (length earlier) \<le> frame_high \<or> frame_high = - 1"
  shows "list_frames_args e pv i frame_high (earlier @ f # later) =
     (case list_frames_args e pv i frame_high earlier of
        Inl err \<Rightarrow> Inl err
      | Inr f1 \<Rightarrow>
          (case list_args_or_locals e arguments pv f of
             Inl err \<Rightarrow> Inl err
           | Inr out \<Rightarrow>
               (case list_frames_args e pv (i + int (length earlier) + 1) frame_high later of
                  Inl err \<Rightarrow> Inl err
                | Inr f3 \<Rightarrow>
                    Inr (f1 @ Tuple (Some ''frame'')
                                (Field_Int ''level'' (i + int (length earlier)) # out) # f3))))"
  using assms
proof (induction earlier arbitrary: i)
  case Nil
  then show ?case by (simp split: sum.splits)
next
  case (Cons g gs)
  from Cons.prems have w: "i \<le> frame_high \<or> frame_high = - 1"
    and w': "(i + 1) + int (length gs) \<le> frame_high \<or> frame_high = - 1" by auto
  have idx: "i + 1 + int (length gs) = i + int (length (g # gs))" by simp
  have "list_frames_args e pv i frame_high ((g # gs) @ f # later) =
     (case list_args_or_locals e arguments pv g of
        Inl err \<Rightarrow> Inl err
      | Inr out \<Rightarrow>
          (case list_frames_args e pv (i + 1) frame_high (gs @ f # later) of
             Inl err \<Rightarrow> Inl err
           | Inr outs \<Rightarrow>
               Inr (Tuple (Some ''frame'') (Field_Int ''level'' i # out) # outs)))"
    using w by simp
  also have "\<dots> =
     (case list_frames_args e pv i frame_high (g # gs) of
        Inl err \<Rightarrow> Inl err
      | Inr f1 \<Rightarrow>
          (case list_args_or_locals e arguments pv f of
             Inl err \<Rightarrow> Inl err
           | Inr out \<Rightarrow>
               (case list_frames_args e pv (i + int (length (g # gs)) + 1) frame_high later of
                  Inl err \<Rightarrow> Inl err
                | Inr f3 \<Rightarrow>
                    Inr (f1 @ Tuple (Some ''frame'')
                                (Field_Int ''level'' (i + int (length (g # gs))) # out) # f3))))"
    unfolding Cons.IH [OF w'] idx using w
    by (simp split: sum.splits)
  finally show ?case .
qed


text \<open>
  Claim C1, amended.  For a variable that is listed and whose emitted requests pass the
  assertions of \<^verbatim>\<open>list_arg_or_local\<close>, as a request that came back with an error and no
  value does, the listing does not abort.  Exactly one record is written for each
  emitted request of the variable: the normal one, the entry one, or both, so one record
  or two.  The record of a request whose fetch failed has the value field
  \<^verbatim>\<open><error reading variable: MESSAGE>\<close>.  And every variable after it, in the same
  frame and in the later frames, is still listed as it is listed on its own: wherever
  the variable stands in its block, in the walk over the blocks of its frame, and its
  frame among the frames of the window, what is written is what comes before it, its
  records, and what the symbols and the frames after it write on their own; an error is
  raised only where one of those raises it.
\<close>

theorem failed_fetch_contained:
  assumes "print_me what s" and "resolve_sym2 e blk s = Some sym2"
    and "fetch_args e values sym2 fi = (arg, entryarg)"
    and "entry_kind arg \<noteq> print_entry_values_only \<longrightarrow> asserts_hold values arg"
    and "entry_kind entryarg \<noteq> print_entry_values_no \<longrightarrow> asserts_hold values entryarg"
  shows "\<exists>rn re. list_symbol e what values fi blk s = Inr (rn @ re)
     \<and> length rn = (if entry_kind arg \<noteq> print_entry_values_only then 1 else 0)
     \<and> length re = (if entry_kind entryarg \<noteq> print_entry_values_no then 1 else 0)
     \<and> (\<forall>msg. entry_kind arg \<noteq> print_entry_values_only \<and> error arg = Some msg
           \<longrightarrow> map (field_of ''value'') rn
                 = [Some (''<error reading variable: '' @ msg @ ''>'')])
     \<and> (\<forall>msg. entry_kind entryarg \<noteq> print_entry_values_no \<and> error entryarg = Some msg
           \<longrightarrow> map (field_of ''value'') re
                 = [Some (''<error reading variable: '' @ msg @ ''>'')])
     \<and> (\<forall>bpre bpost.
           list_block_symbols e what values fi blk (bpre @ s # bpost)
             = (case list_block_symbols e what values fi blk bpre of
                  Inl err \<Rightarrow> Inl err
                | Inr out1 \<Rightarrow>
                    (case list_block_symbols e what values fi blk bpost of
                       Inl err \<Rightarrow> Inl err
                     | Inr out3 \<Rightarrow> Inr (out1 @ rn @ re @ out3))))
     \<and> (\<forall>pre post.
           frame_symbols fi = pre @ (blk, s) # post \<longrightarrow>
           list_args_or_locals e what values fi
             = (case collect (map (\<lambda>(b, s'). list_symbol e what values fi b s') pre) of
                  Inl err \<Rightarrow> Inl err
                | Inr out1 \<Rightarrow>
                    (case collect (map (\<lambda>(b, s'). list_symbol e what values fi b s') post) of
                       Inl err \<Rightarrow> Inl err
                     | Inr out3 \<Rightarrow>
                         Inr [UList (name_of_result what) (out1 @ rn @ re @ out3)])))
     \<and> (\<forall>pre post earlier later i frame_high.
           what = arguments \<and> frame_symbols fi = pre @ (blk, s) # post
           \<and> (i + int (length earlier) \<le> frame_high \<or> frame_high = - 1) \<longrightarrow>
           list_frames_args e values i frame_high (earlier @ fi # later)
             = (case list_frames_args e values i frame_high earlier of
                  Inl err \<Rightarrow> Inl err
                | Inr f1 \<Rightarrow>
                    (case collect
                            (map (\<lambda>(b, s'). list_symbol e arguments values fi b s') pre) of
                       Inl err \<Rightarrow> Inl err
                     | Inr out1 \<Rightarrow>
                         (case collect
                                 (map (\<lambda>(b, s'). list_symbol e arguments values fi b s')
                                    post) of
                            Inl err \<Rightarrow> Inl err
                          | Inr out3 \<Rightarrow>
                              (case list_frames_args e values
                                      (i + int (length earlier) + 1) frame_high later of
                                 Inl err \<Rightarrow> Inl err
                               | Inr f3 \<Rightarrow>
                                   Inr (f1
                                        @ Tuple (Some ''frame'')
                                            [Field_Int ''level'' (i + int (length earlier)),
                                             UList ''args'' (out1 @ rn @ re @ out3)]
                                        # f3))))))"
proof -
  from list_symbol_records [OF assms] obtain rn re where
    eq: "list_symbol e what values fi blk s = Inr (rn @ re)"
    and rn: "if entry_kind arg \<noteq> print_entry_values_only
        then \<exists>r. rn = [r]
           \<and> field_of ''name'' r = Some (SYMBOL_PRINT_NAME sym2)
           \<and> field_of ''type'' r
               = (if values = PRINT_SIMPLE_VALUES then Some (type_print e (symbol_type sym2))
                  else None)
           \<and> field_of ''value'' r
               = (if val arg \<noteq> None \<or> error arg \<noteq> None then Some (value_text e arg) else None)
        else rn = []"
    and re: "if entry_kind entryarg \<noteq> print_entry_values_no
        then \<exists>r. re = [r]
           \<and> field_of ''name'' r = Some (SYMBOL_PRINT_NAME sym2 @ ''@entry'')
           \<and> field_of ''type'' r
               = (if values = PRINT_SIMPLE_VALUES then Some (type_print e (symbol_type sym2))
                  else None)
           \<and> field_of ''value'' r = Some (value_text e entryarg)
        else re = []"
    by blast
  from rn have l1: "length rn = (if entry_kind arg \<noteq> print_entry_values_only then 1 else 0)"
    by (auto split: if_splits)
  from re have l2: "length re = (if entry_kind entryarg \<noteq> print_entry_values_no then 1 else 0)"
    by (auto split: if_splits)
  have v1: "map (field_of ''value'') rn = [Some (''<error reading variable: '' @ msg @ ''>'')]"
    if "entry_kind arg \<noteq> print_entry_values_only \<and> error arg = Some msg" for msg
    using that rn value_text_error [of arg msg e] by (auto split: if_splits)
  have v2: "map (field_of ''value'') re = [Some (''<error reading variable: '' @ msg @ ''>'')]"
    if "entry_kind entryarg \<noteq> print_entry_values_no \<and> error entryarg = Some msg" for msg
    using that re value_text_error [of entryarg msg e] by (auto split: if_splits)
  have blk: "list_block_symbols e what values fi blk (bpre @ s # bpost)
             = (case list_block_symbols e what values fi blk bpre of
                  Inl err \<Rightarrow> Inl err
                | Inr out1 \<Rightarrow>
                    (case list_block_symbols e what values fi blk bpost of
                       Inl err \<Rightarrow> Inl err
                     | Inr out3 \<Rightarrow> Inr (out1 @ rn @ re @ out3)))" for bpre bpost
    by (simp add: list_block_symbols_collect collect_append eq split: sum.splits)
  have frame: "list_args_or_locals e what values fi
             = (case collect (map (\<lambda>(b, s'). list_symbol e what values fi b s') pre) of
                  Inl err \<Rightarrow> Inl err
                | Inr out1 \<Rightarrow>
                    (case collect (map (\<lambda>(b, s'). list_symbol e what values fi b s') post) of
                       Inl err \<Rightarrow> Inl err
                     | Inr out3 \<Rightarrow>
                         Inr [UList (name_of_result what) (out1 @ rn @ re @ out3)]))"
    if "frame_symbols fi = pre @ (blk, s) # post" for pre post
    by (simp add: list_args_or_locals_collect that collect_append eq split: sum.splits)
  have frames: "list_frames_args e values i frame_high (earlier @ fi # later)
             = (case list_frames_args e values i frame_high earlier of
                  Inl err \<Rightarrow> Inl err
                | Inr f1 \<Rightarrow>
                    (case collect
                            (map (\<lambda>(b, s'). list_symbol e arguments values fi b s') pre) of
                       Inl err \<Rightarrow> Inl err
                     | Inr out1 \<Rightarrow>
                         (case collect
                                 (map (\<lambda>(b, s'). list_symbol e arguments values fi b s')
                                    post) of
                            Inl err \<Rightarrow> Inl err
                          | Inr out3 \<Rightarrow>
                              (case list_frames_args e values
                                      (i + int (length earlier) + 1) frame_high later of
                                 Inl err \<Rightarrow> Inl err
                               | Inr f3 \<Rightarrow>
                                   Inr (f1
                                        @ Tuple (Some ''frame'')
                                            [Field_Int ''level'' (i + int (length earlier)),
                                             UList ''args'' (out1 @ rn @ re @ out3)]
                                        # f3)))))"
    if h: "what = arguments \<and> frame_symbols fi = pre @ (blk, s) # post
           \<and> (i + int (length earlier) \<le> frame_high \<or> frame_high = - 1)"
    for pre post earlier later i frame_high
  proof -
    from h have w: "what = arguments" and fs: "frame_symbols fi = pre @ (blk, s) # post"
      and win: "i + int (length earlier) \<le> frame_high \<or> frame_high = - 1" by simp_all
    have fr: "list_args_or_locals e arguments values fi
             = (case collect (map (\<lambda>(b, s'). list_symbol e arguments values fi b s') pre) of
                  Inl err \<Rightarrow> Inl err
                | Inr out1 \<Rightarrow>
                    (case collect
                            (map (\<lambda>(b, s'). list_symbol e arguments values fi b s') post) of
                       Inl err \<Rightarrow> Inl err
                     | Inr out3 \<Rightarrow> Inr [UList ''args'' (out1 @ rn @ re @ out3)]))"
      using frame [OF fs] unfolding w by (simp split: sum.splits)
    show ?thesis
      unfolding list_frames_args_append [OF win] fr
      by (simp split: sum.splits)
  qed
  from eq l1 l2 v1 v2 blk frame frames show ?thesis by blast
qed


theorem failed_fetch_contained_witness:
  "print_me arguments ex_x \<and> resolve_sym2 ex_env ex_pair_block ex_x = Some ex_x
   \<and> (\<exists>rn re.
        list_symbol ex_env arguments PRINT_ALL_VALUES ex_pair_frame ex_pair_block ex_x
          = Inr (rn @ re)
        \<and> length rn = 1 \<and> length re = 1
        \<and> map (field_of ''value'') rn
            = [Some ''<error reading variable: Cannot access memory at address 0x10>'']
        \<and> map (field_of ''value'') re
            = [Some ''<error reading variable: Cannot access memory at address 0x10>'']
        \<and> list_frames_args ex_env PRINT_ALL_VALUES 0 (- 1) [ex_pair_frame, ex_frame 1]
            = Inr [Tuple (Some ''frame'')
                     [Field_Int ''level'' 0,
                      UList ''args''
                        (rn @ re
                         @ [Tuple None [Field_Stream ''name'' ''y'',
                                        Field_Stream ''value'' ''7'']])],
                   Tuple (Some ''frame'')
                     [Field_Int ''level'' 1,
                      UList ''args''
                        [Tuple None
                           [Field_Stream ''name'' ''x'',
                            Field_Stream ''value''
                              ''<error reading variable: Cannot access memory at address 0x10>''],
                         Tuple None
                           [Field_Stream ''name'' ''x@entry'',
                            Field_Stream ''value''
                              ''<error reading variable: Cannot access memory at address 0x10>'']]]])"
proof -
  let ?a = "\<lparr>sym = ex_x, val = None,
             error = Some ''Cannot access memory at address 0x10'',
             entry_kind = print_entry_values_no\<rparr>"
  let ?b = "\<lparr>sym = ex_x, val = None,
             error = Some ''Cannot access memory at address 0x10'',
             entry_kind = print_entry_values_only\<rparr>"
  have pm: "print_me arguments ex_x"
    by (simp add: ex_x_def print_me_def)
  have rs: "resolve_sym2 ex_env ex_pair_block ex_x = Some ex_x"
    by (simp add: resolve_sym2_def ex_env_def ex_pair_block_def ex_x_def)
  have fa: "fetch_args ex_env PRINT_ALL_VALUES ex_x ex_pair_frame = (?a, ?b)"
    by (simp add: fetch_args_def ex_env_def ex_fetch_def filled_arg_def ex_x_def)
  have a: "entry_kind ?a \<noteq> print_entry_values_only \<longrightarrow> asserts_hold PRINT_ALL_VALUES ?a"
    by (simp add: asserts_hold_def)
  have b: "entry_kind ?b \<noteq> print_entry_values_no \<longrightarrow> asserts_hold PRINT_ALL_VALUES ?b"
    by (simp add: asserts_hold_def)
  have fs: "frame_symbols ex_pair_frame = [] @ (ex_pair_block, ex_x) # [(ex_pair_block, ex_y)]"
    by (simp add: frame_symbols_def ex_pair_frame_def ex_pair_block_def)
  have post: "collect (map (\<lambda>(b, s'). list_symbol ex_env arguments PRINT_ALL_VALUES
                                ex_pair_frame b s') [(ex_pair_block, ex_y)])
      = Inr [Tuple None [Field_Stream ''name'' ''y'', Field_Stream ''value'' ''7'']]"
    by (simp add: list_symbol_def print_me_def resolve_sym2_def ex_env_def ex_pair_block_def
        ex_x_def ex_y_def fetch_args_def ex_fetch_def filled_arg_def list_arg_or_local_def
        arg_fields_def value_text_def)
  have later: "list_frames_args ex_env PRINT_ALL_VALUES (0 + int (length ([]::frame_info list)) + 1)
                 (- 1) [ex_frame 1]
      = Inr [Tuple (Some ''frame'')
                     [Field_Int ''level'' 1,
                      UList ''args''
                        [Tuple None
                           [Field_Stream ''name'' ''x'',
                            Field_Stream ''value''
                              ''<error reading variable: Cannot access memory at address 0x10>''],
                         Tuple None
                           [Field_Stream ''name'' ''x@entry'',
                            Field_Stream ''value''
                              ''<error reading variable: Cannot access memory at address 0x10>'']]]]"
    by (simp add: list_args_or_locals_def ex_frame_def ex_block_def list_symbol_def
        print_me_def resolve_sym2_def ex_env_def ex_x_def ex_s_def ex_n_def fetch_args_def
        ex_fetch_def filled_arg_def list_arg_or_local_def arg_fields_def value_text_def)
  from failed_fetch_contained [OF pm rs fa a b] obtain rn re where
    eq: "list_symbol ex_env arguments PRINT_ALL_VALUES ex_pair_frame ex_pair_block ex_x
           = Inr (rn @ re)"
    and l1: "length rn = (if entry_kind ?a \<noteq> print_entry_values_only then 1 else 0)"
    and l2: "length re = (if entry_kind ?b \<noteq> print_entry_values_no then 1 else 0)"
    and v1: "\<forall>msg. entry_kind ?a \<noteq> print_entry_values_only \<and> error ?a = Some msg
           \<longrightarrow> map (field_of ''value'') rn
                 = [Some (''<error reading variable: '' @ msg @ ''>'')]"
    and v2: "\<forall>msg. entry_kind ?b \<noteq> print_entry_values_no \<and> error ?b = Some msg
           \<longrightarrow> map (field_of ''value'') re
                 = [Some (''<error reading variable: '' @ msg @ ''>'')]"
    and frames: "\<forall>pre post earlier later i frame_high.
           arguments = arguments \<and> frame_symbols ex_pair_frame = pre @ (ex_pair_block, ex_x) # post
           \<and> (i + int (length earlier) \<le> frame_high \<or> frame_high = - 1) \<longrightarrow>
           list_frames_args ex_env PRINT_ALL_VALUES i frame_high (earlier @ ex_pair_frame # later)
             = (case list_frames_args ex_env PRINT_ALL_VALUES i frame_high earlier of
                  Inl err \<Rightarrow> Inl err
                | Inr f1 \<Rightarrow>
                    (case collect
                            (map (\<lambda>(b, s'). list_symbol ex_env arguments PRINT_ALL_VALUES
                                     ex_pair_frame b s') pre) of
                       Inl err \<Rightarrow> Inl err
                     | Inr out1 \<Rightarrow>
                         (case collect
                                 (map (\<lambda>(b, s'). list_symbol ex_env arguments PRINT_ALL_VALUES
                                          ex_pair_frame b s')
                                    post) of
                            Inl err \<Rightarrow> Inl err
                          | Inr out3 \<Rightarrow>
                              (case list_frames_args ex_env PRINT_ALL_VALUES
                                      (i + int (length earlier) + 1) frame_high later of
                                 Inl err \<Rightarrow> Inl err
                               | Inr f3 \<Rightarrow>
                                   Inr (f1
                                        @ Tuple (Some ''frame'')
                                            [Field_Int ''level'' (i + int (length earlier)),
                                             UList ''args'' (out1 @ rn @ re @ out3)]
                                        # f3)))))"
    by (elim exE conjE) (rule that, assumption+)
  from l1 have l1': "length rn = 1" by simp
  from l2 have l2': "length re = 1" by simp
  from v1 have v1': "map (field_of ''value'') rn
            = [Some ''<error reading variable: Cannot access memory at address 0x10>'']"
    by simp
  from v2 have v2': "map (field_of ''value'') re
            = [Some ''<error reading variable: Cannot access memory at address 0x10>'']"
    by simp
  from frames [rule_format, where pre = "[]" and post = "[(ex_pair_block, ex_y)]"
      and earlier = "[]" and later = "[ex_frame 1]" and i = 0 and frame_high = "- 1"] fs
  have "list_frames_args ex_env PRINT_ALL_VALUES 0 (- 1) ([] @ ex_pair_frame # [ex_frame 1])
      = Inr ([] @ Tuple (Some ''frame'')
                     [Field_Int ''level'' (0 + int (length ([]::frame_info list))),
                      UList ''args''
                        ([] @ rn @ re
                         @ [Tuple None [Field_Stream ''name'' ''y'',
                                        Field_Stream ''value'' ''7'']])]
              # [Tuple (Some ''frame'')
                     [Field_Int ''level'' 1,
                      UList ''args''
                        [Tuple None
                           [Field_Stream ''name'' ''x'',
                            Field_Stream ''value''
                              ''<error reading variable: Cannot access memory at address 0x10>''],
                         Tuple None
                           [Field_Stream ''name'' ''x@entry'',
                            Field_Stream ''value''
                              ''<error reading variable: Cannot access memory at address 0x10>'']]]])"
    unfolding post later by simp
  then have fr: "list_frames_args ex_env PRINT_ALL_VALUES 0 (- 1) [ex_pair_frame, ex_frame 1]
            = Inr [Tuple (Some ''frame'')
                     [Field_Int ''level'' 0,
                      UList ''args''
                        (rn @ re
                         @ [Tuple None [Field_Stream ''name'' ''y'',
                                        Field_Stream ''value'' ''7'']])],
                   Tuple (Some ''frame'')
                     [Field_Int ''level'' 1,
                      UList ''args''
                        [Tuple None
                           [Field_Stream ''name'' ''x'',
                            Field_Stream ''value''
                              ''<error reading variable: Cannot access memory at address 0x10>''],
                         Tuple None
                           [Field_Stream ''name'' ''x@entry'',
                            Field_Stream ''value''
                              ''<error reading variable: Cannot access memory at address 0x10>'']]]]"
    by simp
  from pm rs eq l1' l2' v1' v2' fr show ?thesis
    by (intro conjI exI) assumption+
qed


subsection \<open>The argument vector of \<^verbatim>\<open>-stack-list-arguments\<close>\<close>

text \<open>
  Claim C10.  The arity check of \<^verbatim>\<open>-stack-list-arguments\<close> accepts the opt-out token
  followed by two arguments, and the token alone.  In the first case \<^verbatim>\<open>argc\<close> is 3, so the
  bounds are read at \<^verbatim>\<open>argv[2]\<close> and \<^verbatim>\<open>argv[3]\<close>; in the second the print-values token is
  read at \<^verbatim>\<open>argv[1]\<close>.  Both are reads at an index that is not below \<^verbatim>\<open>argc\<close>.  The sibling
  \<^verbatim>\<open>-stack-list-locals\<close> rejects the token alone.
\<close>

theorem args_reads_past_argv:
  "raised (mi_cmd_stack_list_args e [''--no-frame-filters'', a, b]) = Some (Argv_Out_Of_Range 3)
   \<and> raised (mi_cmd_stack_list_args e [''--no-frame-filters'']) = Some (Argv_Out_Of_Range 1)"
  by (simp add: mi_cmd_stack_list_args_def parse_no_frames_option_def argv_at_def fail_def Let_def)

lemma locals_rejects_lone_token:
  "raised (mi_cmd_stack_list_locals e [''--no-frame-filters''])
     = Some (Error ''-stack-list-locals: Usage: [--no-frame-filters] PRINT_VALUES'')"
  by (simp add: mi_cmd_stack_list_locals_def parse_no_frames_option_def fail_def Let_def)


end
